theory Spec2Isabelle
  imports Complex_Main
begin

section \<open>Python values\<close>

text \<open>
  The pipeline passes untyped JSON/YAML data between its stages (\<^verbatim>\<open>Dict[str, Any]\<close>).
  A value is one of the shapes that \<^verbatim>\<open>json.load\<close> and \<^verbatim>\<open>yaml.safe_load\<close> produce.
  A dictionary is an association list in insertion order with string keys; a float is
  the rational it denotes (the only floats the code computes are 4.0, 4.5 and their
  averages, which binary floating point represents exactly). A \<^typ>\<open>string\<close> is a
  Python \<^verbatim>\<open>str\<close> whose code points are below 256, one \<^typ>\<open>char\<close> per code point.
\<close>

datatype pyval =
    PNone
  | PBool bool
  | PInt int
  | PFloat rat
  | PStr string
  | PList "pyval list"
  | PDict "(string \<times> pyval) list"

type_synonym pydict = "(string \<times> pyval) list"

text \<open>
  The exceptions the code can raise. The two error kinds of the specification,
  \<^verbatim>\<open>InvalidInputError\<close> and \<^verbatim>\<open>EmptyInputError\<close>, are both \<^verbatim>\<open>ValueError\<close> in the code;
  the others are raised by Python itself on a value of the wrong shape.
\<close>

datatype py_error = ValueError | AttributeError | TypeError | KeyError

text \<open>Sequencing of fallible steps: the first exception ends the computation.\<close>

definition err_bind :: "py_error + 'a \<Rightarrow> ('a \<Rightarrow> py_error + 'b) \<Rightarrow> py_error + 'b" where
  "err_bind m f = (case m of Inl e \<Rightarrow> Inl e | Inr x \<Rightarrow> f x)"

text \<open>Truth value testing (\<^verbatim>\<open>if x\<close>, \<^verbatim>\<open>not x\<close>).\<close>

fun truthy :: "pyval \<Rightarrow> bool" where
  "truthy PNone = False"
| "truthy (PBool b) = b"
| "truthy (PInt i) = (i \<noteq> 0)"
| "truthy (PFloat r) = (r \<noteq> 0)"
| "truthy (PStr s) = (s \<noteq> [])"
| "truthy (PList xs) = (xs \<noteq> [])"
| "truthy (PDict d) = (d \<noteq> [])"

text \<open>\<^verbatim>\<open>k in d\<close> and \<^verbatim>\<open>d.get(k, default)\<close> on a dictionary.\<close>

definition has_key :: "pydict \<Rightarrow> string \<Rightarrow> bool" where
  "has_key d k = (map_of d k \<noteq> None)"

definition dict_get :: "pydict \<Rightarrow> string \<Rightarrow> pyval \<Rightarrow> pyval" where
  "dict_get d k dflt = (case map_of d k of None \<Rightarrow> dflt | Some v \<Rightarrow> v)"

text \<open>
  \<^verbatim>\<open>v.get(k, default)\<close> on an arbitrary value: only a dictionary has the method,
  every other shape raises \<^verbatim>\<open>AttributeError\<close>.
\<close>

fun py_get :: "pyval \<Rightarrow> string \<Rightarrow> pyval \<Rightarrow> py_error + pyval" where
  "py_get (PDict d) k dflt = Inr (dict_get d k dflt)"
| "py_get v k dflt = Inl AttributeError"

text \<open>
  \<^verbatim>\<open>str(v)\<close>: a string is returned as it is. The text Python prints for any other
  value is not fixed here: it is the parameter \<open>repr\<close> of every function that calls
  \<^verbatim>\<open>str\<close>, and the theorems hold for each choice of it.
\<close>

fun py_str :: "(pyval \<Rightarrow> string) \<Rightarrow> pyval \<Rightarrow> string" where
  "py_str repr (PStr s) = s"
| "py_str repr v = repr v"

subsection \<open>String operations\<close>

text \<open>
  \<^verbatim>\<open>str.isspace\<close> on a code point below 256: the ASCII white space and separators,
  NEL (133) and the no-break space (160).
\<close>

definition is_space :: "char \<Rightarrow> bool" where
  "is_space c = ((of_char c :: nat) \<in> {9, 10, 11, 12, 13, 28, 29, 30, 31, 32, 133, 160})"

definition strip :: "string \<Rightarrow> string" where
  "strip s = rev (dropWhile is_space (rev (dropWhile is_space s)))"

text \<open>\<^verbatim>\<open>sep.join(segments)\<close>.\<close>

fun join :: "string \<Rightarrow> string list \<Rightarrow> string" where
  "join sep [] = []"
| "join sep [x] = x"
| "join sep (x # y # ys) = x @ sep @ join sep (y # ys)"

text \<open>\<^verbatim>\<open>s.startswith(p)\<close> and the substring test \<^verbatim>\<open>p in s\<close>.\<close>

fun startswith :: "string \<Rightarrow> string \<Rightarrow> bool" where
  "startswith s [] = True"
| "startswith [] (p # ps) = False"
| "startswith (c # cs) (p # ps) = (c = p \<and> startswith cs ps)"

fun contains :: "string \<Rightarrow> string \<Rightarrow> bool" where
  "contains [] p = (p = [])"
| "contains (c # cs) p = (startswith (c # cs) p \<or> contains cs p)"

section \<open>planner.py\<close>

text \<open>
  \<^verbatim>\<open>Planner.create_overall_plan\<close>. The paper is the dictionary handed to the constructor.
  The three \<^verbatim>\<open>get\<close> calls default a missing key; the f-string formats the title with
  \<^verbatim>\<open>str\<close>. The excerpt is \<^verbatim>\<open>abstract[:200] + ("..." if len(abstract) > 200 else "")\<close>:
  on a string it is the slice followed by the marker; any other shape of abstract cannot
  be sliced and concatenated with a string and raises (\<^verbatim>\<open>TypeError\<close>).
\<close>

definition abstract_excerpt :: "pyval \<Rightarrow> py_error + string" where
  "abstract_excerpt abstract =
     (case abstract of
        PStr a \<Rightarrow> Inr (take 200 a @ (if length a > 200 then ''...'' else ''''))
      | _ \<Rightarrow> Inl TypeError)"

definition create_overall_plan :: "(pyval \<Rightarrow> string) \<Rightarrow> pydict \<Rightarrow> py_error + pydict" where
  "create_overall_plan repr paper =
     (let title = dict_get paper ''title'' (PStr ''Untitled Paper'');
          abstract = dict_get paper ''abstract'' (PStr '''');
          body_text = dict_get paper ''body_text'' (PStr '''');
          implementation_goal =
            ''Reproduce the experiments and methodologies described in the paper titled ''
            @ [CHR 0x27] @ py_str repr title @ [CHR 0x27] @ ''.'';
          methodology_overview =
            ''Components include data preprocessing, model training, evaluation, and architectural design ''
            @ ''with interdependent modules mirroring the multi-stage pipeline described in the paper.'';
          experimental_setup =
            ''Experimentation should follow a dependency-aware pipeline utilizing n=8 sampling for evaluation, ''
            @ ''and both reference-based and reference-free evaluation using the specified evaluation model.'';
          ambiguous =
            (if \<not> truthy abstract
             then [PStr ''Abstract is missing or insufficient to extract methodology details.'']
             else [])
            @ (if \<not> truthy body_text
               then [PStr ''Body text is missing; experimental procedures and detailed methods are unclear.'']
               else [])
      in err_bind (abstract_excerpt abstract) (\<lambda>excerpt.
           Inr [(''implementation_goal'', PStr implementation_goal),
                (''methodology_overview'', PStr methodology_overview),
                (''experimental_setup'', PStr experimental_setup),
                (''ambiguous_details'', PList ambiguous),
                (''paper_summary'',
                   PDict [(''title'', title), (''abstract_excerpt'', PStr excerpt)])]))"

text \<open>The excerpt stored in a plan: \<^verbatim>\<open>plan["paper_summary"]["abstract_excerpt"]\<close>.\<close>

definition plan_abstract_excerpt :: "pydict \<Rightarrow> pyval option" where
  "plan_abstract_excerpt plan =
     (case map_of plan ''paper_summary'' of
        Some (PDict summary) \<Rightarrow> map_of summary ''abstract_excerpt''
      | _ \<Rightarrow> None)"

text \<open>
  \<^verbatim>\<open>Planner.generate_config\<close>. The file \<^verbatim>\<open>config.yaml\<close> is the argument: \<open>None\<close> when
  opening or parsing it raises (the \<^verbatim>\<open>except Exception\<close> branch), otherwise the value
  that \<^verbatim>\<open>yaml.safe_load\<close> returns. Only the read is inside the \<^verbatim>\<open>try\<close>; the \<^verbatim>\<open>get\<close>
  calls that follow are outside it.
\<close>

definition load_yaml :: "pyval option \<Rightarrow> pyval" where
  "load_yaml config_yaml =
     (case config_yaml of
        None \<Rightarrow> PDict []
      | Some loaded_config \<Rightarrow> if \<not> truthy loaded_config then PDict [] else loaded_config)"

definition generate_config :: "pyval option \<Rightarrow> py_error + pydict" where
  "generate_config config_yaml =
     (let loaded_config = load_yaml config_yaml
      in err_bind (py_get loaded_config ''training'' (PDict [])) (\<lambda>training_config.
         err_bind (py_get loaded_config ''evaluation'' (PDict [])) (\<lambda>evaluation_config.
         err_bind (py_get training_config ''learning_rate'' (PStr ''0.001'')) (\<lambda>learning_rate.
         err_bind (py_get training_config ''batch_size'' (PStr ''32'')) (\<lambda>batch_size.
         err_bind (py_get training_config ''epochs'' (PStr ''10'')) (\<lambda>epochs.
         err_bind (py_get evaluation_config ''n_way_sampling'' (PInt 8)) (\<lambda>n_way_sampling.
         err_bind (py_get evaluation_config ''evaluation_model'' (PStr ''o3-mini-high''))
           (\<lambda>evaluation_model.
             Inr [(''training'',
                     PDict [(''learning_rate'', learning_rate),
                            (''batch_size'', batch_size),
                            (''epochs'', epochs)]),
                  (''evaluation'',
                     PDict [(''n_way_sampling'', n_way_sampling),
                            (''evaluation_model'', evaluation_model)])]))))))))"

section \<open>paper\_parser.py\<close>

text \<open>
  \<^verbatim>\<open>PaperParser.__init__\<close> keeps the paper dictionary, its only field, after checking the
  two required keys.
\<close>

definition PaperParser_init :: "pydict \<Rightarrow> py_error + pydict" where
  "PaperParser_init paper_json =
     (if \<not> has_key paper_json ''paper_id'' \<or> \<not> has_key paper_json ''title''
      then Inl ValueError
      else Inr paper_json)"

text \<open>\<^verbatim>\<open>_clean_text(text)\<close> is \<^verbatim>\<open>text.strip()\<close>; only a string has the method.\<close>

fun clean_text :: "pyval \<Rightarrow> py_error + string" where
  "clean_text (PStr s) = Inr (strip s)"
| "clean_text v = Inl AttributeError"

text \<open>
  The loop over the entries of \<^verbatim>\<open>abstract\<close>, written out again for \<^verbatim>\<open>body_text\<close> and
  \<^verbatim>\<open>back_matter\<close>: a dictionary contributes its cleaned \<^verbatim>\<open>text\<close> when that is not
  empty, a string is cleaned and appended whatever the result, any other entry is
  skipped. \<open>segments\<close> is the list built so far.
\<close>

fun collect_segments :: "pyval list \<Rightarrow> string list \<Rightarrow> py_error + string list" where
  "collect_segments [] segments = Inr segments"
| "collect_segments (PDict item # items) segments =
     (case clean_text (dict_get item ''text'' (PStr '''')) of
        Inl e \<Rightarrow> Inl e
      | Inr segment \<Rightarrow>
          collect_segments items (if segment \<noteq> [] then segments @ [segment] else segments))"
| "collect_segments (PStr item # items) segments =
     collect_segments items (segments @ [strip item])"
| "collect_segments (item # items) segments = collect_segments items segments"

text \<open>
  The list comprehension over \<^verbatim>\<open>pdf_parse.abstract\<close>: only dictionaries whose stripped
  \<^verbatim>\<open>text\<close> is not empty contribute; strings and other entries are dropped.
\<close>

fun pdf_segments :: "pyval list \<Rightarrow> py_error + string list" where
  "pdf_segments [] = Inr []"
| "pdf_segments (PDict item # items) =
     (case clean_text (dict_get item ''text'' (PStr '''')) of
        Inl e \<Rightarrow> Inl e
      | Inr segment \<Rightarrow>
          (case pdf_segments items of
             Inl e \<Rightarrow> Inl e
           | Inr rest \<Rightarrow> Inr (if segment \<noteq> [] then segment # rest else rest)))"
| "pdf_segments (item # items) = pdf_segments items"

text \<open>
  \<^verbatim>\<open>k in v\<close> and \<^verbatim>\<open>v[k]\<close> for a string \<open>k\<close> and a value of any shape, as the test
  \<^verbatim>\<open>"abstract" in self.paper_json["pdf_parse"]\<close> and the lookup after it meet them:
  membership is key membership in a dictionary, element membership in a list and the
  substring test in a string, and raises on a value that is not a container; indexing
  with a string works on a dictionary only.
\<close>

fun py_in :: "string \<Rightarrow> pyval \<Rightarrow> py_error + bool" where
  "py_in k (PDict d) = Inr (has_key d k)"
| "py_in k (PList xs) = Inr (PStr k \<in> set xs)"
| "py_in k (PStr s) = Inr (contains s k)"
| "py_in k v = Inl TypeError"

fun py_index :: "pyval \<Rightarrow> string \<Rightarrow> py_error + pyval" where
  "py_index (PDict d) k = (case map_of d k of None \<Rightarrow> Inl KeyError | Some v \<Rightarrow> Inr v)"
| "py_index v k = Inl TypeError"

text \<open>Lines 64 to 75: the abstract taken from a present, true value of \<^verbatim>\<open>abstract\<close>.\<close>

definition direct_abstract :: "pyval \<Rightarrow> py_error + string" where
  "direct_abstract abstract =
     (case abstract of
        PList items \<Rightarrow>
          err_bind (collect_segments items []) (\<lambda>segments. Inr (join '' '' segments))
      | PStr s \<Rightarrow> Inr (strip s)
      | _ \<Rightarrow> Inr '''')"

text \<open>Lines 76 to 88: the \<^verbatim>\<open>elif\<close> on \<^verbatim>\<open>pdf_parse\<close> and the final \<^verbatim>\<open>else\<close>.\<close>

definition pdf_abstract_text :: "pyval \<Rightarrow> py_error + string" where
  "pdf_abstract_text pdf_abstract =
     (case pdf_abstract of
        PList items \<Rightarrow> err_bind (pdf_segments items) (\<lambda>segments. Inr (join '' '' segments))
      | PStr s \<Rightarrow> Inr (strip s)
      | _ \<Rightarrow> Inr '''')"

definition pdf_parse_abstract :: "pydict \<Rightarrow> py_error + string" where
  "pdf_parse_abstract paper_json =
     (case map_of paper_json ''pdf_parse'' of
        None \<Rightarrow> Inr ''''
      | Some pdf_parse \<Rightarrow>
          err_bind (py_in ''abstract'' pdf_parse) (\<lambda>found.
            if found then err_bind (py_index pdf_parse ''abstract'') pdf_abstract_text
            else Inr ''''))"

definition extract_abstract :: "pydict \<Rightarrow> py_error + string" where
  "extract_abstract paper_json =
     (case map_of paper_json ''abstract'' of
        None \<Rightarrow> pdf_parse_abstract paper_json
      | Some abstract \<Rightarrow>
          if truthy abstract then direct_abstract abstract
          else pdf_parse_abstract paper_json)"

text \<open>Lines 92 to 127: body text, figures and reference entries.\<close>

definition extract_body_text :: "pydict \<Rightarrow> py_error + string" where
  "extract_body_text paper_json =
     (case map_of paper_json ''body_text'' of
        Some (PList items) \<Rightarrow>
          err_bind (collect_segments items []) (\<lambda>segments. Inr (join [CHR 0x0A] segments))
      | _ \<Rightarrow> Inr '''')"

definition extract_figures :: "pydict \<Rightarrow> py_error + string list" where
  "extract_figures paper_json =
     (case map_of paper_json ''back_matter'' of
        Some (PList items) \<Rightarrow> collect_segments items []
      | _ \<Rightarrow> Inr [])"

definition extract_ref_entries :: "pydict \<Rightarrow> pydict" where
  "extract_ref_entries paper_json =
     (case map_of paper_json ''ref_entries'' of
        Some (PDict refs) \<Rightarrow> refs
      | _ \<Rightarrow> [])"

definition parse :: "(pyval \<Rightarrow> string) \<Rightarrow> pydict \<Rightarrow> py_error + pydict" where
  "parse repr paper_json =
     (let paper_id = strip (py_str repr (dict_get paper_json ''paper_id'' (PStr '''')));
          title = strip (py_str repr (dict_get paper_json ''title'' (PStr '''')))
      in err_bind (extract_abstract paper_json) (\<lambda>abstract_text.
         err_bind (extract_body_text paper_json) (\<lambda>body_text.
         err_bind (extract_figures paper_json) (\<lambda>figures.
           Inr [(''paper_id'', PStr paper_id),
                (''title'', PStr title),
                (''abstract'', PStr abstract_text),
                (''body_text'', PStr body_text),
                (''figures'', PList (map PStr figures)),
                (''ref_entries'', PDict (extract_ref_entries paper_json))]))))"

text \<open>\<^verbatim>\<open>PaperParser(paper_json).parse()\<close>, as \<^verbatim>\<open>run_pipeline\<close> calls it.\<close>

definition parse_paper :: "(pyval \<Rightarrow> string) \<Rightarrow> pydict \<Rightarrow> py_error + pydict" where
  "parse_paper repr paper_json = err_bind (PaperParser_init paper_json) (parse repr)"

section \<open>analyzer.py\<close>

text \<open>
  The analyzer reports through \<^verbatim>\<open>logging\<close>. A call \<^verbatim>\<open>logging.warning(fmt, args)\<close> is kept
  as the record the logging module makes of it: level, format string and arguments, in
  the order of the calls.
\<close>

datatype log_level = WARNING | INFO

type_synonym log = "(log_level \<times> string \<times> pyval list) list"

record analyzer =
  plan :: pydict
  architecture_design :: pyval
  file_list :: pyval

definition default_file_list :: "pyval" where
  "default_file_list =
     PList [PStr ''main.py'', PStr ''paper_parser.py'', PStr ''planner.py'',
            PStr ''analyzer.py'', PStr ''code_generator.py'', PStr ''evaluation.py'']"

text \<open>\<^verbatim>\<open>d[k] = v\<close> on a dictionary, and on a value of any shape.\<close>

fun dict_set :: "pydict \<Rightarrow> string \<Rightarrow> pyval \<Rightarrow> pydict" where
  "dict_set [] k v = [(k, v)]"
| "dict_set ((k', v') # d) k v = (if k' = k then (k, v) # d else (k', v') # dict_set d k v)"

fun py_setitem :: "pyval \<Rightarrow> string \<Rightarrow> pyval \<Rightarrow> py_error + pyval" where
  "py_setitem (PDict d) k v = Inr (PDict (dict_set d k v))"
| "py_setitem x k v = Inl TypeError"

text \<open>
  \<^verbatim>\<open>Analyzer.__init__\<close>. A missing \<^verbatim>\<open>architecture_design\<close> is a new empty dictionary; an
  empty one stored in the plan is the plan's own object, so the default file list
  written into it shows in the plan too.
\<close>

definition Analyzer_init :: "pydict \<Rightarrow> py_error + analyzer \<times> log" where
  "Analyzer_init plan0 =
     (let design0 = dict_get plan0 ''architecture_design'' (PDict []);
          missing_design = \<not> truthy design0
      in err_bind (if missing_design then py_setitem design0 ''file_list'' default_file_list
                   else Inr design0) (\<lambda>design.
         err_bind (py_get design ''file_list'' (PList [])) (\<lambda>files.
           Inr (\<lparr>plan = (if missing_design \<and> has_key plan0 ''architecture_design''
                            then dict_set plan0 ''architecture_design'' design else plan0),
                  architecture_design = design,
                  file_list = (if \<not> truthy files then default_file_list else files)\<rparr>,
                (if missing_design
                 then [(WARNING, ''Architecture design missing in plan. Using default file list.'', [])]
                 else [])
                @ (if \<not> truthy files
                   then [(WARNING,
                          ''File list is empty in architecture design. Assigning default file list.'',
                          [])]
                   else [])))))"

text \<open>The static table \<^verbatim>\<open>module_specs\<close>: each entry is a dictionary with four fixed keys.\<close>

record module_spec =
  functionality :: string
  expected_inputs :: "string list"
  expected_outputs :: "string list"
  dependencies :: "string list"

definition module_specs :: "(string \<times> module_spec) list" where
  "module_specs =
     [(''paper_parser.py'',
         \<lparr>functionality =
            ''Parses the input paper JSON and produces a structured Paper object with fields: ''
            @ ''paper_id, title, abstract, body_text, figures, and ref_entries.'',
          expected_inputs = [''Raw paper JSON''],
          expected_outputs = [''Structured Paper object (dict)''],
          dependencies = []\<rparr>),
      (''planner.py'',
         \<lparr>functionality =
            ''Generates an overall plan, architecture design (including file list, class diagram, ''
            @ ''and sequence diagram), and configuration details from the structured Paper object.'',
          expected_inputs = [''Structured Paper object (from paper_parser.py)''],
          expected_outputs =
            [''Overall plan dictionary'',
             ''Architecture design dictionary (file_list, class diagram, sequence diagram)'',
             ''Configuration details dictionary''],
          dependencies = [''paper_parser.py'']\<rparr>),
      (''analyzer.py'',
         \<lparr>functionality =
            ''Analyzes the Planner's output to produce detailed file-level specifications, including module ''
            @ ''responsibilities, input/output contracts, and inter-module dependency relations.'',
          expected_inputs =
            [''Plan dictionary containing overall plan, architecture design, and configuration details''],
          expected_outputs = [''List of file-level analysis dictionaries for each module''],
          dependencies = [''planner.py'']\<rparr>),
      (''code_generator.py'',
         \<lparr>functionality =
            ''Generates modular, dependency-aware code templates for each file based on the overall plan and ''
            @ ''the detailed analysis produced by Analyzer.'',
          expected_inputs =
            [''Overall plan dictionary'', ''Detailed file-level analysis from Analyzer''],
          expected_outputs = [''Dictionary of generated code files (filename : code string)''],
          dependencies = [''planner.py'', ''analyzer.py'']\<rparr>),
      (''evaluation.py'',
         \<lparr>functionality =
            ''Evaluates the generated code repository using reference-based and reference-free metrics as defined ''
            @ ''in the experimental setup.'',
          expected_inputs = [''Generated repository (from code_generator.py)''],
          expected_outputs = [''Evaluation metrics dictionary''],
          dependencies = [''code_generator.py'']\<rparr>),
      (''main.py'',
         \<lparr>functionality =
            ''Orchestrates the entire pipeline by sequentially invoking the parsing, planning, analysis, code generation, ''
            @ ''and evaluation modules.'',
          expected_inputs = [''Configuration details and outputs from all modules''],
          expected_outputs = [''Final code repository and evaluation metrics''],
          dependencies =
            [''paper_parser.py'', ''planner.py'', ''analyzer.py'', ''code_generator.py'',
             ''evaluation.py'']\<rparr>)]"

text \<open>The specification substituted for a name that is not in the table.\<close>

definition default_spec :: "module_spec" where
  "default_spec =
     \<lparr>functionality = ''No specific functionality defined.'',
      expected_inputs = [],
      expected_outputs = [],
      dependencies = []\<rparr>"

text \<open>
  \<^verbatim>\<open>module_specs.get(file_name)\<close>: the key is hashed first, which raises on a list or a
  dictionary; a key that is not a string is in no entry of the table.
\<close>

fun specs_get :: "pyval \<Rightarrow> py_error + module_spec option" where
  "specs_get (PStr name) = Inr (map_of module_specs name)"
| "specs_get (PList xs) = Inl TypeError"
| "specs_get (PDict d) = Inl TypeError"
| "specs_get v = Inr None"

definition analysis_of :: "pyval \<Rightarrow> module_spec \<Rightarrow> pyval" where
  "analysis_of file_name spec =
     PDict [(''file_name'', file_name),
            (''functionality'', PStr (functionality spec)),
            (''expected_inputs'', PList (map PStr (expected_inputs spec))),
            (''expected_outputs'', PList (map PStr (expected_outputs spec))),
            (''dependencies'', PList (map PStr (dependencies spec)))]"

text \<open>
  The loop of \<^verbatim>\<open>analyze_modules\<close>, with the list built so far and the log written so
  far.
\<close>

fun analyze_loop :: "pyval list \<Rightarrow> pyval list \<Rightarrow> log \<Rightarrow> py_error + pyval list \<times> log" where
  "analyze_loop [] analysis_list lg = Inr (analysis_list, lg)"
| "analyze_loop (file_name # rest) analysis_list lg =
     (case specs_get file_name of
        Inl e \<Rightarrow> Inl e
      | Inr None \<Rightarrow>
          analyze_loop rest (analysis_list @ [analysis_of file_name default_spec])
            (lg @ [(WARNING, ''No predefined specification for %s. Using default values.'',
                    [file_name])])
      | Inr (Some spec) \<Rightarrow>
          analyze_loop rest (analysis_list @ [analysis_of file_name spec]) lg)"

text \<open>
  \<^verbatim>\<open>for file_name in self.file_list\<close>: a list yields its elements, a string its
  characters, a dictionary its keys; nothing else can be iterated.
\<close>

fun py_iter :: "pyval \<Rightarrow> py_error + pyval list" where
  "py_iter (PList xs) = Inr xs"
| "py_iter (PStr s) = Inr (map (\<lambda>c. PStr [c]) s)"
| "py_iter (PDict d) = Inr (map (\<lambda>kv. PStr (fst kv)) d)"
| "py_iter v = Inl TypeError"

definition analyze_modules :: "analyzer \<Rightarrow> py_error + pyval list \<times> log" where
  "analyze_modules self =
     err_bind (py_iter (file_list self)) (\<lambda>names.
     err_bind (analyze_loop names [] []) (\<lambda>(analysis_list, lg).
       Inr (analysis_list,
            lg @ [(INFO, ''Module analysis completed successfully with %d modules analyzed.'',
                   [PInt (int (length analysis_list))])])))"

text \<open>\<^verbatim>\<open>Analyzer(plan).analyze_modules()\<close>, as \<^verbatim>\<open>run_pipeline\<close> calls it.\<close>

definition analyze_plan :: "pydict \<Rightarrow> py_error + pyval list \<times> log" where
  "analyze_plan plan0 =
     err_bind (Analyzer_init plan0) (\<lambda>(self, lg0).
     err_bind (analyze_modules self) (\<lambda>(analysis_list, lg). Inr (analysis_list, lg0 @ lg)))"

section \<open>code\_generator.py\<close>

text \<open>
  The module cannot be run as it is written, so none of its class is given as a
  function here. The branch of
  \<^verbatim>\<open>_generate_template\<close> for \<^verbatim>\<open>code_generator.py\<close> returns an f-string literal opened by three
  single quotes on line 191, and the text meant to be its content quotes the class
  itself, with further literals opened by three single quotes. In Python a literal
  opened by three quotes ends at the next three quotes that no backslash escapes,
  whatever the author meant. \<open>closing_quotes\<close> looks for them in one line and returns
  the rest of the line after them; \<open>triple_quoted_end\<close> reads the lines that follow the
  opening quotes and returns what is left of the closing line, with the lines after it,
  or \<open>None\<close> when the literal is not closed.
\<close>

fun closing_quotes :: "string \<Rightarrow> string option" where
  "closing_quotes (c # d # e # rest) =
     (if c = CHR 0x5C then closing_quotes (e # rest)
      else if c = CHR 0x27 \<and> d = CHR 0x27 \<and> e = CHR 0x27 then Some rest
      else closing_quotes (d # e # rest))"
| "closing_quotes cs = None"

fun triple_quoted_end :: "string list \<Rightarrow> (string \<times> string list) option" where
  "triple_quoted_end [] = None"
| "triple_quoted_end (line # lines) =
     (case closing_quotes line of
        Some rest \<Rightarrow> Some (rest, lines)
      | None \<Rightarrow> triple_quoted_end lines)"

text \<open>
  Lines 191 to 231 of \<^verbatim>\<open>code_generator.py\<close>, the first from the character after the
  opening quotes of the literal.
\<close>

definition generate_template_source :: "string list" where
  \<open>generate_template_source =
    [''"""'',
     ''Module: {file_name}'',
     ''{details}'',
     ''This module defines the CodeGenerator class, which generates code templates for all repository files.'',
     ''Configuration placeholders:'',
     ''    - training.learning_rate: {{learning_rate}}'',
     ''    - training.batch_size: {{batch_size}}'',
     ''    - training.epochs: {{epochs}}'',
     ''"""'',
     [],
     ''import logging'',
     ''from typing import Any, Dict, List'',
     [],
     ''class CodeGenerator:'',
     ''    def __init__(self, analysis: List[Dict[str, Any]], plan: Dict[str, Any]) -> None:'',
     ''        if not analysis:'',
     ''            logging.error("Empty analysis list provided to CodeGenerator.")'',
     ''            raise ValueError("Analysis list is empty.")'',
     ''        if not plan:'',
     ''            logging.error("Empty plan dictionary provided to CodeGenerator.")'',
     ''            raise ValueError("Plan dictionary is empty.")'',
     ''        self.analysis = analysis'',
     ''        self.plan = plan'',
     [],
     ''    def generate_code(self) -> Dict[str, str]:'',
     ''        generated_code = {{}}'',
     ''        for module in self.analysis:'',
     ''            file_name = module.get("file_name")'',
     ''            if not file_name:'',
     ''                logging.warning("Module in analysis missing '' @ [CHR 0x27] @ ''file_name'' @ [CHR 0x27] @ ''; skipping.")'',
     ''                continue'',
     ''            details = module.get("functionality", "")'',
     ''            template = self._generate_template(file_name, details)'',
     ''            final_code = self._inject_configuration(template)'',
     ''            generated_code[file_name] = final_code'',
     ''            logging.info("Generated code for module: %s", file_name)'',
     ''        return generated_code'',
     [],
     ''    def _generate_template(self, file_name: str, details: str) -> str:'',
     ''        if file_name in ["paper_parser.py", "planner.py", "analyzer.py"]:'',
     ''            return f'' @ [CHR 0x27] @ [CHR 0x27] @ [CHR 0x27] @ [CHR 0x5C] @ ''"'' @ [CHR 0x5C] @ ''"'' @ [CHR 0x5C] @ ''"Module: {{file_name}}'']\<close>

section \<open>evaluation.py\<close>

record evaluator =
  repository :: pydict
  config :: pyval
  n_way_sampling :: pyval
  evaluation_model :: pyval

text \<open>
  \<^verbatim>\<open>Evaluator.__init__(repository, config=None)\<close>. An absent configuration is \<open>PNone\<close>;
  it is then read from \<^verbatim>\<open>config.yaml\<close>, the first argument here (see \<open>load_yaml\<close>).
\<close>

definition Evaluator_init :: "pyval option \<Rightarrow> pydict \<Rightarrow> pyval \<Rightarrow> py_error + evaluator" where
  "Evaluator_init config_yaml repository0 config0 =
     (if repository0 = [] then Inl ValueError
      else
        let config1 = (if config0 = PNone then load_yaml config_yaml else config0)
        in err_bind (py_get config1 ''evaluation'' (PDict [])) (\<lambda>evaluation_config.
           err_bind (py_get evaluation_config ''n_way_sampling'' (PInt 8)) (\<lambda>n.
           err_bind (py_get evaluation_config ''evaluation_model'' (PStr ''o3-mini-high''))
             (\<lambda>model.
               Inr \<lparr>repository = repository0, config = config1,
                    n_way_sampling = n, evaluation_model = model\<rparr>))))"

text \<open>
  \<^verbatim>\<open>code.split()\<close>: the maximal runs of characters that are not white space. \<open>token\<close>
  is the run being read.
\<close>

fun split_tokens :: "string \<Rightarrow> string \<Rightarrow> string list" where
  "split_tokens token [] = (if token = [] then [] else [token])"
| "split_tokens token (c # cs) =
     (if is_space c then (if token = [] then split_tokens [] cs else token # split_tokens [] cs)
      else split_tokens (token @ [c]) cs)"

definition split :: "string \<Rightarrow> string list" where
  "split s = split_tokens [] s"

text \<open>
  \<^verbatim>\<open>re.findall(r'\bdef\b', code)\<close>. A word character (\<^verbatim>\<open>\w\<close>) below 256 is a letter, a
  digit, the underscore or one of the Latin-1 letters and numerals. A match is an
  occurrence of \<^verbatim>\<open>def\<close> with no word character right before it and none right after
  it; two matches cannot overlap, so the number of matches is the number of such
  positions. \<open>prev\<close> tells whether the character before the current position is a word
  character.
\<close>

definition is_word :: "char \<Rightarrow> bool" where
  "is_word c =
     (let n = (of_char c :: nat)
      in (48 \<le> n \<and> n \<le> 57) \<or> (65 \<le> n \<and> n \<le> 90) \<or> n = 95 \<or> (97 \<le> n \<and> n \<le> 122)
         \<or> n = 170 \<or> n = 178 \<or> n = 179 \<or> n = 181 \<or> n = 185 \<or> n = 186
         \<or> (188 \<le> n \<and> n \<le> 190) \<or> (192 \<le> n \<and> n \<le> 214)
         \<or> (216 \<le> n \<and> n \<le> 246) \<or> (248 \<le> n \<and> n \<le> 255))"

fun count_def :: "bool \<Rightarrow> string \<Rightarrow> nat" where
  "count_def prev [] = 0"
| "count_def prev (c # cs) =
     (if \<not> prev \<and> startswith (c # cs) ''def''
         \<and> (case drop 2 cs of [] \<Rightarrow> True | x # rest \<Rightarrow> \<not> is_word x)
      then 1 else 0)
     + count_def (is_word c) cs"

text \<open>
  The loop of \<^verbatim>\<open>_compute_summary_statistics\<close> over the entries of the repository, with
  the two running totals; an entry whose value is not a string has no \<^verbatim>\<open>split\<close>.
\<close>

fun statistics_loop :: "pydict \<Rightarrow> nat \<Rightarrow> nat \<Rightarrow> py_error + nat \<times> nat" where
  "statistics_loop [] total_tokens function_count = Inr (total_tokens, function_count)"
| "statistics_loop ((file_name, code) # rest) total_tokens function_count =
     (case code of
        PStr s \<Rightarrow>
          statistics_loop rest (total_tokens + length (split s))
            (function_count + count_def False s)
      | _ \<Rightarrow> Inl AttributeError)"

definition compute_summary_statistics :: "evaluator \<Rightarrow> py_error + pydict" where
  "compute_summary_statistics self =
     err_bind (statistics_loop (repository self) 0 0) (\<lambda>(total_tokens, function_count).
       Inr [(''file_count'', PInt (int (length (repository self)))),
            (''total_tokens'', PInt (int total_tokens)),
            (''function_count'', PInt (int function_count))])"

text \<open>\<^verbatim>\<open>prompt.lower()\<close> on code points below 256.\<close>

definition lower_char :: "char \<Rightarrow> char" where
  "lower_char c =
     (let n = (of_char c :: nat)
      in if (65 \<le> n \<and> n \<le> 90) \<or> (192 \<le> n \<and> n \<le> 222 \<and> n \<noteq> 215)
         then char_of (n + 32) else c)"

definition lower :: "string \<Rightarrow> string" where
  "lower s = map lower_char s"

definition simulate_llm_evaluation :: "string \<Rightarrow> rat" where
  "simulate_llm_evaluation prompt =
     (if contains (lower prompt) ''gold-standard'' then 4 else 9 / 2)"

text \<open>
  \<^verbatim>\<open>range(self.n_way_sampling)\<close>: the number of iterations. An integer below one gives
  none, a Boolean counts as 0 or 1, any other value raises.
\<close>

fun py_range :: "pyval \<Rightarrow> py_error + nat" where
  "py_range (PInt n) = Inr (nat n)"
| "py_range (PBool b) = Inr (if b then 1 else 0)"
| "py_range v = Inl TypeError"

text \<open>The sampling loop, with the two lists of scores collected so far.\<close>

fun sampling_loop ::
  "nat \<Rightarrow> bool \<Rightarrow> string \<Rightarrow> string \<Rightarrow> rat list \<Rightarrow> rat list \<Rightarrow> rat list \<times> rat list" where
  "sampling_loop 0 has_gold_standard prompt_ref prompt_free ref_based_scores ref_free_scores =
     (ref_based_scores, ref_free_scores)"
| "sampling_loop (Suc k) has_gold_standard prompt_ref prompt_free ref_based_scores ref_free_scores =
     sampling_loop k has_gold_standard prompt_ref prompt_free
       (if has_gold_standard
        then ref_based_scores @ [simulate_llm_evaluation prompt_ref]
        else ref_based_scores)
       (ref_free_scores @ [simulate_llm_evaluation prompt_free])"

text \<open>
  \<^verbatim>\<open>round(x, 2)\<close>: the nearest multiple of one hundredth, a tie going to the even one.
\<close>

definition round2 :: "rat \<Rightarrow> rat" where
  "round2 x =
     (let scaled = x * 100;
          below = \<lfloor>scaled\<rfloor>;
          rest = scaled - of_int below
      in of_int (if rest < 1 / 2 then below
                 else if 1 / 2 < rest then below + 1
                 else if even below then below else below + 1) / 100)"

definition average_score :: "rat list \<Rightarrow> rat" where
  "average_score scores = round2 (sum_list scores / of_nat (length scores))"

definition prompt_ref_gold :: "string" where
  "prompt_ref_gold =
     ''Evaluate the generated repository against the gold-standard repository. ''
     @ ''Assess the coverage and correctness of the required components on a scale of 1 to 5.''"

definition prompt_free :: "string" where
  "prompt_free =
     ''Evaluate the generated repository based solely on the experimental methods described in the paper. ''
     @ ''Provide a correctness score on a scale of 1 to 5.''"

text \<open>
  Lines 291 to 317 of \<^verbatim>\<open>evaluate\<close>: the prompts, the sampling loop and the two averages,
  from the presence of the key \<^verbatim>\<open>gold_standard\<close> and the number of iterations.
\<close>

definition sampled_scores :: "bool \<Rightarrow> nat \<Rightarrow> pyval \<times> pyval" where
  "sampled_scores has_gold_standard n =
     (let prompt_ref = (if has_gold_standard then prompt_ref_gold
                        else ''No gold-standard available.'');
          (ref_based_scores, ref_free_scores) =
            sampling_loop n has_gold_standard prompt_ref prompt_free [] [];
          reference_based_score =
            (if has_gold_standard \<and> ref_based_scores \<noteq> []
             then PFloat (average_score ref_based_scores) else PNone);
          reference_free_score =
            (if ref_free_scores \<noteq> []
             then PFloat (average_score ref_free_scores) else PNone)
      in (reference_based_score, reference_free_score))"

text \<open>
  \<^verbatim>\<open>evaluate\<close>: the statistics first, then the sampling, then the dictionary of
  metrics. The human score is the constant the source writes, 4.2.
\<close>

definition evaluate :: "evaluator \<Rightarrow> py_error + pydict" where
  "evaluate self =
     err_bind (compute_summary_statistics self) (\<lambda>summary_stats.
     err_bind (py_range (n_way_sampling self)) (\<lambda>n.
       let (reference_based_score, reference_free_score) =
             sampled_scores (has_key (repository self) ''gold_standard'') n
       in Inr [(''reference_based_score'', reference_based_score),
               (''reference_free_score'', reference_free_score),
               (''human_score'', PFloat (21 / 5)),
               (''summary_statistics'', PDict summary_stats),
               (''evaluation_model'', evaluation_model self),
               (''n_way_sampling'', n_way_sampling self)]))"

text \<open>\<^verbatim>\<open>Evaluator(repository, config).evaluate()\<close>, as \<^verbatim>\<open>run_pipeline\<close> calls it.\<close>

definition run_evaluation :: "pyval option \<Rightarrow> pydict \<Rightarrow> pyval \<Rightarrow> py_error + pydict" where
  "run_evaluation config_yaml repository0 config0 =
     err_bind (Evaluator_init config_yaml repository0 config0) evaluate"

text \<open>The two score fields of a run, or the exception that ended it.\<close>

definition score_fields :: "py_error + pydict \<Rightarrow> py_error + pyval option \<times> pyval option" where
  "score_fields result =
     (case result of
        Inl e \<Rightarrow> Inl e
      | Inr metrics \<Rightarrow>
          Inr (map_of metrics ''reference_based_score'', map_of metrics ''reference_free_score''))"

section \<open>main.py\<close>

definition default_configuration :: "pyval" where
  "default_configuration =
     PDict [(''training'',
               PDict [(''learning_rate'', PStr ''0.001''),
                      (''batch_size'', PStr ''32''),
                      (''epochs'', PStr ''10'')]),
            (''evaluation'',
               PDict [(''n_way_sampling'', PInt 8),
                      (''evaluation_model'', PStr ''o3-mini-high'')])]"

text \<open>
  \<^verbatim>\<open>load_configuration\<close>: the body of the \<^verbatim>\<open>try\<close> block after the file is read. Here the
  lookups and the default filling are inside the \<^verbatim>\<open>try\<close>.
\<close>

definition fill_missing :: "pyval \<Rightarrow> string \<Rightarrow> pyval \<Rightarrow> py_error + pyval" where
  "fill_missing section_config k dflt =
     err_bind (py_in k section_config) (\<lambda>present.
       if \<not> present then py_setitem section_config k dflt else Inr section_config)"

definition fill_configuration :: "pyval \<Rightarrow> py_error + pyval" where
  "fill_configuration loaded =
     (let config0 = (if \<not> truthy loaded then default_configuration else loaded)
      in err_bind (py_get config0 ''training'' (PDict [])) (\<lambda>t0.
         err_bind (fill_missing t0 ''learning_rate'' (PStr ''0.001'')) (\<lambda>t1.
         err_bind (fill_missing t1 ''batch_size'' (PStr ''32'')) (\<lambda>t2.
         err_bind (fill_missing t2 ''epochs'' (PStr ''10'')) (\<lambda>training_config.
         err_bind (py_setitem config0 ''training'' training_config) (\<lambda>config1.
         err_bind (py_get config1 ''evaluation'' (PDict [])) (\<lambda>e0.
         err_bind (fill_missing e0 ''n_way_sampling'' (PInt 8)) (\<lambda>e1.
         err_bind (fill_missing e1 ''evaluation_model'' (PStr ''o3-mini-high''))
           (\<lambda>evaluation_config.
             py_setitem config1 ''evaluation'' evaluation_config)))))))))"

text \<open>
  \<^verbatim>\<open>load_configuration\<close>: any exception, of the read or of the body, is caught and
  answered with the default configuration.
\<close>

definition load_configuration :: "pyval option \<Rightarrow> pyval" where
  "load_configuration config_yaml =
     (case config_yaml of
        None \<Rightarrow> default_configuration
      | Some loaded \<Rightarrow>
          (case fill_configuration loaded of
             Inl e \<Rightarrow> default_configuration
           | Inr filled \<Rightarrow> filled))"

section \<open>Notions used in the statements\<close>

text \<open>A value that can be a dictionary key: anything but a list or a dictionary.\<close>

fun hashable :: "pyval \<Rightarrow> bool" where
  "hashable (PList xs) = False"
| "hashable (PDict d) = False"
| "hashable v = True"

text \<open>The names that have an entry in \<open>module_specs\<close>.\<close>

definition known_modules :: "string list" where
  "known_modules = map fst module_specs"

text \<open>The \<^verbatim>\<open>file_name\<close> of an analysis record.\<close>

definition file_name_of :: "pyval \<Rightarrow> pyval option" where
  "file_name_of analysis_record =
     (case analysis_record of PDict d \<Rightarrow> map_of d ''file_name'' | _ \<Rightarrow> None)"

text \<open>A repository whose every entry is source text, as \<^verbatim>\<open>generate_code\<close> builds it.\<close>

fun is_str :: "pyval \<Rightarrow> bool" where
  "is_str (PStr s) = True"
| "is_str v = False"

definition text_files :: "pydict \<Rightarrow> bool" where
  "text_files repo = list_all (\<lambda>entry. is_str (snd entry)) repo"

text \<open>
  The shape of paper record on which \<^verbatim>\<open>parse\<close> returns: in every list the parser walks,
  a dictionary entry has a string under \<^verbatim>\<open>text\<close> or no \<^verbatim>\<open>text\<close> at all; and
  \<^verbatim>\<open>pdf_parse\<close>, when the parser turns to it, is a dictionary (or a list or string in
  which \<^verbatim>\<open>"abstract"\<close> does not occur).
\<close>

definition text_entries_ok :: "pyval list \<Rightarrow> bool" where
  "text_entries_ok items =
     list_all (\<lambda>item. case item of
                          PDict d \<Rightarrow> is_str (dict_get d ''text'' (PStr ''''))
                        | _ \<Rightarrow> True) items"

definition list_field_ok :: "pydict \<Rightarrow> string \<Rightarrow> bool" where
  "list_field_ok paper_json k =
     (case map_of paper_json k of
        Some (PList items) \<Rightarrow> text_entries_ok items
      | _ \<Rightarrow> True)"

definition pdf_parse_ok :: "pydict \<Rightarrow> bool" where
  "pdf_parse_ok paper_json =
     (case map_of paper_json ''pdf_parse'' of
        None \<Rightarrow> True
      | Some (PDict pdf_parse) \<Rightarrow> list_field_ok pdf_parse ''abstract''
      | Some (PList xs) \<Rightarrow> PStr ''abstract'' \<notin> set xs
      | Some (PStr s) \<Rightarrow> \<not> contains s ''abstract''
      | Some _ \<Rightarrow> False)"

definition abstract_source_ok :: "pydict \<Rightarrow> bool" where
  "abstract_source_ok paper_json =
     (case map_of paper_json ''abstract'' of
        None \<Rightarrow> pdf_parse_ok paper_json
      | Some abstract \<Rightarrow>
          if truthy abstract then list_field_ok paper_json ''abstract''
          else pdf_parse_ok paper_json)"

definition well_shaped :: "pydict \<Rightarrow> bool" where
  "well_shaped paper_json =
     (abstract_source_ok paper_json \<and> list_field_ok paper_json ''body_text''
      \<and> list_field_ok paper_json ''back_matter'')"

text \<open>
  The rule of the specification for the abstract, following its words: a sequence of
  \<^verbatim>\<open>{text}\<close> records or plain strings gives the non-empty trimmed text values joined by
  single spaces, a string is trimmed, otherwise the same two sub-rules are applied to
  \<^verbatim>\<open>pdfParse.abstract\<close>, otherwise the result is the empty string.
\<close>

fun spec_text_value :: "pyval \<Rightarrow> string list" where
  "spec_text_value (PDict d) = (case map_of d ''text'' of Some (PStr t) \<Rightarrow> [t] | _ \<Rightarrow> [])"
| "spec_text_value (PStr s) = [s]"
| "spec_text_value v = []"

fun spec_sub_rules :: "pyval \<Rightarrow> string option" where
  "spec_sub_rules (PList items) =
     Some (join '' '' (filter (\<lambda>t. t \<noteq> []) (map strip (concat (map spec_text_value items)))))"
| "spec_sub_rules (PStr s) = Some (strip s)"
| "spec_sub_rules v = None"

definition spec_abstract :: "pydict \<Rightarrow> string" where
  "spec_abstract raw =
     (case Option.bind (map_of raw ''abstract'') spec_sub_rules of
        Some text \<Rightarrow> text
      | None \<Rightarrow>
          (case map_of raw ''pdf_parse'' of
             Some (PDict pdf_parse) \<Rightarrow>
               (case Option.bind (map_of pdf_parse ''abstract'') spec_sub_rules of
                  Some text \<Rightarrow> text
                | None \<Rightarrow> '''')
           | _ \<Rightarrow> ''''))"

text \<open>
  The rule the parser follows, stated without its loops. In a list under \<^verbatim>\<open>abstract\<close> a
  record contributes its trimmed text when that is not empty and a plain string
  contributes its trimmed text even when that is empty; in a list under
  \<^verbatim>\<open>pdf_parse.abstract\<close> only records contribute. \<^verbatim>\<open>pdf_parse\<close> is consulted when
  \<^verbatim>\<open>abstract\<close> is missing or false (empty), and not when it is a true value of another
  shape.
\<close>

fun record_segment :: "pyval \<Rightarrow> string list" where
  "record_segment (PDict d) =
     (case dict_get d ''text'' (PStr '''') of
        PStr t \<Rightarrow> if strip t \<noteq> [] then [strip t] else []
      | _ \<Rightarrow> [])"
| "record_segment v = []"

fun entry_segment :: "pyval \<Rightarrow> string list" where
  "entry_segment (PStr s) = [strip s]"
| "entry_segment v = record_segment v"

definition pdf_abstract_rule :: "pydict \<Rightarrow> string" where
  "pdf_abstract_rule raw =
     (case map_of raw ''pdf_parse'' of
        Some (PDict pdf_parse) \<Rightarrow>
          (case map_of pdf_parse ''abstract'' of
             Some (PList items) \<Rightarrow> join '' '' (concat (map record_segment items))
           | Some (PStr s) \<Rightarrow> strip s
           | _ \<Rightarrow> '''')
      | _ \<Rightarrow> '''')"

definition abstract_rule :: "pydict \<Rightarrow> string" where
  "abstract_rule raw =
     (case map_of raw ''abstract'' of
        None \<Rightarrow> pdf_abstract_rule raw
      | Some abstract \<Rightarrow>
          if \<not> truthy abstract then pdf_abstract_rule raw
          else (case abstract of
                  PList items \<Rightarrow> join '' '' (concat (map entry_segment items))
                | PStr s \<Rightarrow> strip s
                | _ \<Rightarrow> ''''))"

text \<open>
  The rule for the abstract as amended: the two sub-rules of the specification, applied
  to \<^verbatim>\<open>abstract\<close> when it is present and true (not empty), a true value of another shape
  giving the empty string, and applied to \<^verbatim>\<open>pdf_parse.abstract\<close> when \<^verbatim>\<open>abstract\<close> is
  missing or false.
\<close>

definition amended_pdf_abstract :: "pydict \<Rightarrow> string" where
  "amended_pdf_abstract raw =
     (case map_of raw ''pdf_parse'' of
        Some (PDict pdf_parse) \<Rightarrow>
          (case Option.bind (map_of pdf_parse ''abstract'') spec_sub_rules of
             Some text \<Rightarrow> text
           | None \<Rightarrow> '''')
      | _ \<Rightarrow> '''')"

definition amended_abstract :: "pydict \<Rightarrow> string" where
  "amended_abstract raw =
     (case map_of raw ''abstract'' of
        None \<Rightarrow> amended_pdf_abstract raw
      | Some abstract \<Rightarrow>
          if truthy abstract
          then (case spec_sub_rules abstract of Some text \<Rightarrow> text | None \<Rightarrow> '''')
          else amended_pdf_abstract raw)"

text \<open>
  The records the amended rule is stated for. In the list the parser walks, a record has
  a string or nothing under \<^verbatim>\<open>text\<close>; a plain string in the list under \<^verbatim>\<open>abstract\<close> is not
  blank, and a plain string in the list under \<^verbatim>\<open>pdf_parse.abstract\<close> is blank (the
  parser does not treat plain strings there as it treats records); and \<^verbatim>\<open>pdf_parse\<close>,
  when it is consulted, is missing or a dictionary.
\<close>

definition direct_entries_regular :: "pyval list \<Rightarrow> bool" where
  "direct_entries_regular items =
     list_all (\<lambda>item. case item of
                          PDict d \<Rightarrow> is_str (dict_get d ''text'' (PStr ''''))
                        | PStr s \<Rightarrow> strip s \<noteq> []
                        | _ \<Rightarrow> True) items"

definition pdf_entries_regular :: "pyval list \<Rightarrow> bool" where
  "pdf_entries_regular items =
     list_all (\<lambda>item. case item of
                          PDict d \<Rightarrow> is_str (dict_get d ''text'' (PStr ''''))
                        | PStr s \<Rightarrow> strip s = []
                        | _ \<Rightarrow> True) items"

definition regular_pdf_source :: "pydict \<Rightarrow> bool" where
  "regular_pdf_source raw =
     (case map_of raw ''pdf_parse'' of
        None \<Rightarrow> True
      | Some (PDict pdf_parse) \<Rightarrow>
          (case map_of pdf_parse ''abstract'' of
             Some (PList items) \<Rightarrow> pdf_entries_regular items
           | _ \<Rightarrow> True)
      | Some _ \<Rightarrow> False)"

definition regular_abstract_source :: "pydict \<Rightarrow> bool" where
  "regular_abstract_source raw =
     (case map_of raw ''abstract'' of
        None \<Rightarrow> regular_pdf_source raw
      | Some abstract \<Rightarrow>
          if truthy abstract
          then (case abstract of PList items \<Rightarrow> direct_entries_regular items | _ \<Rightarrow> True)
          else regular_pdf_source raw)"

section \<open>Properties of the planner\<close>

lemma plan_excerpt_of_string:
  "dict_get paper ''abstract'' (PStr '''') = PStr a \<Longrightarrow>
   \<exists>plan. create_overall_plan repr paper = Inr plan \<and>
     plan_abstract_excerpt plan =
       Some (PStr (take 200 a @ (if length a > 200 then ''...'' else '''')))"
  by (simp add: create_overall_plan_def abstract_excerpt_def err_bind_def
      plan_abstract_excerpt_def Let_def)

text \<open>
  Claim C3. For a paper whose abstract is a string of exactly 200 code units the plan is
  built and its excerpt is the abstract itself, with no ellipsis; for an abstract of 201
  or more code units the excerpt is the first 200 code units followed by \<^verbatim>\<open>...\<close>.
\<close>

theorem abstract_excerpt_boundary:
  assumes "map_of paper ''abstract'' = Some (PStr a)"
  shows "\<exists>plan. create_overall_plan repr paper = Inr plan \<and>
           (length a = 200 \<longrightarrow> plan_abstract_excerpt plan = Some (PStr a)) \<and>
           (201 \<le> length a \<longrightarrow>
              plan_abstract_excerpt plan = Some (PStr (take 200 a @ ''...'')))"
proof -
  from assms have "dict_get paper ''abstract'' (PStr '''') = PStr a"
    by (simp add: dict_get_def)
  from plan_excerpt_of_string [OF this, of repr] show ?thesis
    by auto
qed

theorem abstract_excerpt_boundary_witness:
  "(\<exists>plan. create_overall_plan (\<lambda>v. '''')
        [(''title'', PStr ''T''), (''abstract'', PStr (replicate 200 (CHR ''a'')))] = Inr plan \<and>
      plan_abstract_excerpt plan = Some (PStr (replicate 200 (CHR ''a'')))) \<and>
   (\<exists>plan. create_overall_plan (\<lambda>v. '''')
        [(''title'', PStr ''T''), (''abstract'', PStr (replicate 201 (CHR ''a'')))] = Inr plan \<and>
      plan_abstract_excerpt plan = Some (PStr (replicate 200 (CHR ''a'') @ ''...'')))"
  using abstract_excerpt_boundary
      [of "[(''title'', PStr ''T''), (''abstract'', PStr (replicate 200 (CHR ''a'')))]"
          "replicate 200 (CHR ''a'')" "\<lambda>v. ''''"]
    abstract_excerpt_boundary
      [of "[(''title'', PStr ''T''), (''abstract'', PStr (replicate 201 (CHR ''a'')))]"
          "replicate 201 (CHR ''a'')" "\<lambda>v. ''''"]
  by simp
section \<open>Properties of the configuration loader\<close>

lemma generate_config_defaults_on_failure:
  "generate_config None =
     Inr [(''training'',
             PDict [(''learning_rate'', PStr ''0.001''), (''batch_size'', PStr ''32''),
                    (''epochs'', PStr ''10'')]),
          (''evaluation'',
             PDict [(''n_way_sampling'', PInt 8), (''evaluation_model'', PStr ''o3-mini-high'')])]"
  by (simp add: generate_config_def load_yaml_def err_bind_def dict_get_def)

lemma load_configuration_catches:
  "load_configuration (Some (PDict [(''training'', PNone)])) = default_configuration"
  by (simp add: load_configuration_def fill_configuration_def fill_missing_def err_bind_def
      dict_get_def default_configuration_def)

text \<open>
  Claim C7, at the configuration file whose only line is \<^verbatim>\<open>training:\<close> (a section with
  no keys, which YAML loads as \<^verbatim>\<open>{"training": None}\<close>): \<^verbatim>\<open>generate_config\<close> does not
  fall back to the defaults, the \<^verbatim>\<open>get\<close> on the section raises \<^verbatim>\<open>AttributeError\<close> outside
  the \<^verbatim>\<open>try\<close> block and the exception reaches the caller.
\<close>

theorem generate_config_raises:
  "generate_config (Some (PDict [(''training'', PNone)])) = Inl AttributeError"
  by (simp add: generate_config_def load_yaml_def err_bind_def dict_get_def)

section \<open>Properties of the constructors\<close>

text \<open>
  Claim C2, against the claim as stated: the constructor of the evaluator, given a
  repository with one file and the empty configuration, does not raise; it returns an
  evaluator with the default sampling count and model.
\<close>

theorem evaluator_accepts_empty_config:
  "Evaluator_init None [(''main.py'', PStr ''pass'')] (PDict []) =
     Inr \<lparr>repository = [(''main.py'', PStr ''pass'')], config = PDict [],
          n_way_sampling = PInt 8, evaluation_model = PStr ''o3-mini-high''\<rparr>"
  by (simp add: Evaluator_init_def err_bind_def dict_get_def)

text \<open>
  Claim C2, amended. The constructor of the evaluator raises \<^verbatim>\<open>ValueError\<close> on an empty
  repository, whatever the configuration. An empty configuration given to it with a
  repository that is not empty, or an absent one when \<^verbatim>\<open>config.yaml\<close> cannot be read, is
  accepted, and the defaults 8 and \<^verbatim>\<open>o3-mini-high\<close> are used. Nothing is said of the
  constructor of the template generator, whose module cannot be run.
\<close>

theorem evaluator_on_empty_input:
  "Evaluator_init config_yaml [] config0 = Inl ValueError \<and>
   (repository0 \<noteq> [] \<longrightarrow>
      Evaluator_init config_yaml repository0 (PDict []) =
        Inr \<lparr>repository = repository0, config = PDict [],
             n_way_sampling = PInt 8, evaluation_model = PStr ''o3-mini-high''\<rparr>) \<and>
   (repository0 \<noteq> [] \<longrightarrow>
      Evaluator_init None repository0 PNone =
        Inr \<lparr>repository = repository0, config = PDict [],
             n_way_sampling = PInt 8, evaluation_model = PStr ''o3-mini-high''\<rparr>)"
  by (simp add: Evaluator_init_def load_yaml_def err_bind_def dict_get_def)

theorem evaluator_on_empty_input_witness:
  "Evaluator_init None [] (PDict []) = Inl ValueError \<and>
   Evaluator_init (Some (PDict [(''evaluation'', PDict [(''n_way_sampling'', PInt 3)])]))
       [(''main.py'', PStr ''pass'')] (PDict []) =
     Inr \<lparr>repository = [(''main.py'', PStr ''pass'')], config = PDict [],
          n_way_sampling = PInt 8, evaluation_model = PStr ''o3-mini-high''\<rparr> \<and>
   Evaluator_init None [(''main.py'', PStr ''pass'')] PNone =
     Inr \<lparr>repository = [(''main.py'', PStr ''pass'')], config = PDict [],
          n_way_sampling = PInt 8, evaluation_model = PStr ''o3-mini-high''\<rparr>"
  using evaluator_on_empty_input
      [of None "PDict []" "[(''main.py'', PStr ''pass'')]"]
    evaluator_on_empty_input
      [of "Some (PDict [(''evaluation'', PDict [(''n_way_sampling'', PInt 3)])])" "PDict []"
          "[(''main.py'', PStr ''pass'')]"]
  by simp

section \<open>Properties of the analyzer\<close>

lemma known_modules_eq:
  "known_modules =
     [''paper_parser.py'', ''planner.py'', ''analyzer.py'', ''code_generator.py'',
      ''evaluation.py'', ''main.py'']"
  by (simp add: known_modules_def module_specs_def)

lemma specs_get_unknown:
  assumes "hashable v" and "v \<notin> PStr ` set known_modules"
  shows "specs_get v = Inr None"
proof (cases v)
  case (PStr name)
  with assms(2) have "name \<notin> fst ` set module_specs"
    by (auto simp: known_modules_def)
  then have "map_of module_specs name = None"
    by (simp add: map_of_eq_None_iff)
  with PStr show ?thesis by simp
qed (use assms(1) in simp_all)

lemma specs_get_hashable:
  "hashable v \<Longrightarrow> \<exists>found. specs_get v = Inr found"
  by (cases v) simp_all

lemma analyze_loop_total:
  assumes "\<forall>v \<in> set names. hashable v"
  shows "\<exists>out lg'. analyze_loop names acc lg = Inr (acc @ out, lg @ lg') \<and>
           length out = length names \<and>
           (\<forall>i < length names. specs_get (names ! i) = Inr None \<longrightarrow>
              out ! i = analysis_of (names ! i) default_spec \<and>
              (WARNING, ''No predefined specification for %s. Using default values.'',
               [names ! i]) \<in> set lg')"
  using assms
proof (induction names arbitrary: acc lg)
  case Nil
  then show ?case by simp
next
  case (Cons v names)
  from Cons.prems have hv: "hashable v" and rest: "\<forall>v \<in> set names. hashable v"
    by simp_all
  from specs_get_hashable [OF hv] obtain found where found: "specs_get v = Inr found"
    by blast
  let ?warn = "\<lambda>x. (WARNING, ''No predefined specification for %s. Using default values.'', [x])"
  show ?case
  proof (cases found)
    case None
    from Cons.IH [OF rest, of "acc @ [analysis_of v default_spec]" "lg @ [?warn v]"]
    obtain out lg' where step:
      "analyze_loop names (acc @ [analysis_of v default_spec]) (lg @ [?warn v]) =
         Inr ((acc @ [analysis_of v default_spec]) @ out, (lg @ [?warn v]) @ lg')"
      "length out = length names"
      "\<forall>i < length names. specs_get (names ! i) = Inr None \<longrightarrow>
         out ! i = analysis_of (names ! i) default_spec \<and> ?warn (names ! i) \<in> set lg'"
      by blast
    have "analyze_loop (v # names) acc lg =
            Inr (acc @ (analysis_of v default_spec # out), lg @ (?warn v # lg'))"
      using found None step(1) by simp
    moreover have "length (analysis_of v default_spec # out) = length (v # names)"
      using step(2) by simp
    moreover have "\<forall>i < length (v # names). specs_get ((v # names) ! i) = Inr None \<longrightarrow>
         (analysis_of v default_spec # out) ! i = analysis_of ((v # names) ! i) default_spec \<and>
         ?warn ((v # names) ! i) \<in> set (?warn v # lg')"
    proof (intro allI impI)
      fix i
      assume "i < length (v # names)" and "specs_get ((v # names) ! i) = Inr None"
      then show "(analysis_of v default_spec # out) ! i
                   = analysis_of ((v # names) ! i) default_spec \<and>
                 ?warn ((v # names) ! i) \<in> set (?warn v # lg')"
        using step(3) by (cases i) auto
    qed
    ultimately show ?thesis by blast
  next
    case (Some spec)
    from Cons.IH [OF rest, of "acc @ [analysis_of v spec]" lg]
    obtain out lg' where step:
      "analyze_loop names (acc @ [analysis_of v spec]) lg =
         Inr ((acc @ [analysis_of v spec]) @ out, lg @ lg')"
      "length out = length names"
      "\<forall>i < length names. specs_get (names ! i) = Inr None \<longrightarrow>
         out ! i = analysis_of (names ! i) default_spec \<and> ?warn (names ! i) \<in> set lg'"
      by blast
    have "analyze_loop (v # names) acc lg = Inr (acc @ (analysis_of v spec # out), lg @ lg')"
      using found Some step(1) by simp
    moreover have "length (analysis_of v spec # out) = length (v # names)"
      using step(2) by simp
    moreover have "\<forall>i < length (v # names). specs_get ((v # names) ! i) = Inr None \<longrightarrow>
         (analysis_of v spec # out) ! i = analysis_of ((v # names) ! i) default_spec \<and>
         ?warn ((v # names) ! i) \<in> set lg'"
    proof (intro allI impI)
      fix i
      assume "i < length (v # names)" and "specs_get ((v # names) ! i) = Inr None"
      then show "(analysis_of v spec # out) ! i = analysis_of ((v # names) ! i) default_spec \<and>
                 ?warn ((v # names) ! i) \<in> set lg'"
        using step(3) found Some by (cases i) auto
    qed
    ultimately show ?thesis by blast
  qed
qed

text \<open>
  Claim C6, against the claim as stated: for the unknown name \<^verbatim>\<open>utils.py\<close> the record
  emitted has the functionality text \<^verbatim>\<open>No specific functionality defined.\<close>, not the
  empty string.
\<close>

theorem unknown_module_functionality_not_empty:
  "analyze_plan [(''architecture_design'', PDict [(''file_list'', PList [PStr ''utils.py''])])] =
     Inr ([PDict [(''file_name'', PStr ''utils.py''),
                  (''functionality'', PStr ''No specific functionality defined.''),
                  (''expected_inputs'', PList []),
                  (''expected_outputs'', PList []),
                  (''dependencies'', PList [])]],
          [(WARNING, ''No predefined specification for %s. Using default values.'',
            [PStr ''utils.py'']),
           (INFO, ''Module analysis completed successfully with %d modules analyzed.'',
            [PInt 1])])"
  by (simp add: analyze_plan_def Analyzer_init_def analyze_modules_def err_bind_def dict_get_def
      module_specs_def analysis_of_def default_spec_def Let_def)

text \<open>
  Claim C6, amended. Whatever the file list yields, as long as every name in it can be
  looked up (is not a list or a dictionary, as every string is), \<^verbatim>\<open>analyze_modules\<close>
  returns one record per name, and the record of a name that is not among the six of the
  table has the functionality text \<^verbatim>\<open>No specific functionality defined.\<close> and empty
  expected inputs, expected outputs and dependencies; the miss is logged at level
  WARNING, with the name as its argument.
\<close>

theorem unknown_module_default_spec:
  assumes "py_iter (file_list self) = Inr names"
    and "\<forall>v \<in> set names. hashable v"
    and "i < length names"
    and "names ! i \<notin> PStr ` set known_modules"
  shows "\<exists>analysis_list lg. analyze_modules self = Inr (analysis_list, lg) \<and>
           length analysis_list = length names \<and>
           analysis_list ! i =
             PDict [(''file_name'', names ! i),
                    (''functionality'', PStr ''No specific functionality defined.''),
                    (''expected_inputs'', PList []),
                    (''expected_outputs'', PList []),
                    (''dependencies'', PList [])] \<and>
           (WARNING, ''No predefined specification for %s. Using default values.'',
            [names ! i]) \<in> set lg"
proof -
  from assms(2,3) have "hashable (names ! i)" by simp
  from specs_get_unknown [OF this assms(4)] have miss: "specs_get (names ! i) = Inr None" .
  from analyze_loop_total [OF assms(2), of "[]" "[]"] obtain out lg' where loop:
    "analyze_loop names [] [] = Inr (out, lg')"
    "length out = length names"
    "\<forall>i < length names. specs_get (names ! i) = Inr None \<longrightarrow>
       out ! i = analysis_of (names ! i) default_spec \<and>
       (WARNING, ''No predefined specification for %s. Using default values.'',
        [names ! i]) \<in> set lg'"
    by auto
  from loop(3) assms(3) miss have
    "out ! i = analysis_of (names ! i) default_spec"
    "(WARNING, ''No predefined specification for %s. Using default values.'', [names ! i])
       \<in> set lg'"
    by blast+
  with loop(1,2) assms(1) show ?thesis
    by (simp add: analyze_modules_def err_bind_def analysis_of_def default_spec_def)
qed

theorem unknown_module_default_spec_witness:
  "\<exists>analysis_list lg.
     analyze_modules \<lparr>plan = [], architecture_design = PDict [],
                      file_list = PList [PStr ''main.py'', PStr ''utils.py'']\<rparr>
       = Inr (analysis_list, lg) \<and>
     length analysis_list = 2 \<and>
     analysis_list ! 1 =
       PDict [(''file_name'', PStr ''utils.py''),
              (''functionality'', PStr ''No specific functionality defined.''),
              (''expected_inputs'', PList []),
              (''expected_outputs'', PList []),
              (''dependencies'', PList [])] \<and>
     (WARNING, ''No predefined specification for %s. Using default values.'',
      [PStr ''utils.py'']) \<in> set lg"
  using unknown_module_default_spec
      [of "\<lparr>plan = [], architecture_design = PDict [],
             file_list = PList [PStr ''main.py'', PStr ''utils.py'']\<rparr>"
          "[PStr ''main.py'', PStr ''utils.py'']" 1]
  by (simp add: known_modules_eq numeral_2_eq_2)

lemma analyze_default_file_list:
  assumes "file_list self = default_file_list"
  shows "\<exists>analysis_list lg. analyze_modules self = Inr (analysis_list, lg) \<and>
           length analysis_list = 6 \<and>
           map file_name_of analysis_list =
             [Some (PStr ''main.py''), Some (PStr ''paper_parser.py''),
              Some (PStr ''planner.py''), Some (PStr ''analyzer.py''),
              Some (PStr ''code_generator.py''), Some (PStr ''evaluation.py'')]"
  using assms
  by (simp add: analyze_modules_def default_file_list_def err_bind_def module_specs_def
      analysis_of_def file_name_of_def)

lemma Analyzer_init_default_file_list:
  assumes "map_of plan0 ''architecture_design'' = None \<or>
           (\<exists>design. map_of plan0 ''architecture_design'' = Some (PDict design) \<and>
              (map_of design ''file_list'' = None \<or>
               (\<exists>files. map_of design ''file_list'' = Some files \<and> \<not> truthy files)))"
  shows "\<exists>self lg0. Analyzer_init plan0 = Inr (self, lg0) \<and> file_list self = default_file_list"
  using assms
proof (elim disjE exE conjE)
  assume "map_of plan0 ''architecture_design'' = None"
  then show ?thesis
    by (simp add: Analyzer_init_def dict_get_def err_bind_def Let_def default_file_list_def)
next
  fix design
  assume d: "map_of plan0 ''architecture_design'' = Some (PDict design)"
    and "map_of design ''file_list'' = None"
  then show ?thesis
    by (cases "design = []")
      (simp_all add: Analyzer_init_def dict_get_def err_bind_def Let_def default_file_list_def)
next
  fix design files
  assume d: "map_of plan0 ''architecture_design'' = Some (PDict design)"
    and "map_of design ''file_list'' = Some files" and "\<not> truthy files"
  then show ?thesis
    by (cases "design = []")
      (auto simp add: Analyzer_init_def dict_get_def err_bind_def Let_def default_file_list_def)
qed

text \<open>
  Where the substitution of the default file list works: a plan with no
  \<^verbatim>\<open>architecture_design\<close> entry, or whose architecture design is a dictionary with no
  \<^verbatim>\<open>file_list\<close> or with an empty (false) one. The constructor then succeeds with the six
  canonical file names, and \<^verbatim>\<open>analyze_modules\<close> returns six records whose file names are
  the canonical ones in their order.
\<close>

lemma missing_file_list_default:
  assumes "map_of plan0 ''architecture_design'' = None \<or>
           (\<exists>design. map_of plan0 ''architecture_design'' = Some (PDict design) \<and>
              (map_of design ''file_list'' = None \<or>
               (\<exists>files. map_of design ''file_list'' = Some files \<and> \<not> truthy files)))"
  shows "\<exists>self lg0 analysis_list lg.
           Analyzer_init plan0 = Inr (self, lg0) \<and>
           file_list self = default_file_list \<and>
           analyze_modules self = Inr (analysis_list, lg) \<and>
           analysis_list \<noteq> [] \<and>
           map file_name_of analysis_list =
             [Some (PStr ''main.py''), Some (PStr ''paper_parser.py''),
              Some (PStr ''planner.py''), Some (PStr ''analyzer.py''),
              Some (PStr ''code_generator.py''), Some (PStr ''evaluation.py'')]"
proof -
  from Analyzer_init_default_file_list [OF assms] obtain self lg0
    where init: "Analyzer_init plan0 = Inr (self, lg0)" "file_list self = default_file_list"
    by blast
  from analyze_default_file_list [OF init(2)] obtain analysis_list lg
    where run: "analyze_modules self = Inr (analysis_list, lg)" "length analysis_list = 6"
      "map file_name_of analysis_list =
         [Some (PStr ''main.py''), Some (PStr ''paper_parser.py''),
          Some (PStr ''planner.py''), Some (PStr ''analyzer.py''),
          Some (PStr ''code_generator.py''), Some (PStr ''evaluation.py'')]"
    by auto
  from run(2) have "analysis_list \<noteq> []" by auto
  with init run show ?thesis by auto
qed

lemma missing_file_list_default_example:
  "\<exists>self lg0 analysis_list lg.
      Analyzer_init [(''architecture_design'',
                      PDict [(''class_diagram'', PStr ''classDiagram''),
                             (''file_list'', PList [])])] = Inr (self, lg0) \<and>
      file_list self = default_file_list \<and>
      analyze_modules self = Inr (analysis_list, lg) \<and>
      analysis_list \<noteq> [] \<and>
      map file_name_of analysis_list =
        [Some (PStr ''main.py''), Some (PStr ''paper_parser.py''),
         Some (PStr ''planner.py''), Some (PStr ''analyzer.py''),
         Some (PStr ''code_generator.py''), Some (PStr ''evaluation.py'')]"
  using missing_file_list_default
      [of "[(''architecture_design'',
             PDict [(''class_diagram'', PStr ''classDiagram''), (''file_list'', PList [])])]"]
  by simp

text \<open>
  Claim C10, at the plan \<^verbatim>\<open>{"architecture_design": null}\<close>, which has no file list. The
  constructor takes the branch that logs \<^verbatim>\<open>Architecture design missing in plan. Using
  default file list.\<close> and the assignment of the default list into \<^verbatim>\<open>None\<close> on line 25
  raises \<^verbatim>\<open>TypeError\<close>: no list is substituted and no analysis is returned, where the
  claim says the six canonical names are substituted and nothing is raised.
\<close>

theorem analyzer_raises_on_null_design:
  "Analyzer_init [(''architecture_design'', PNone)] = Inl TypeError \<and>
   analyze_plan [(''architecture_design'', PNone)] = Inl TypeError"
  by (simp add: analyze_plan_def Analyzer_init_def dict_get_def err_bind_def)

section \<open>Properties of the evaluator\<close>

lemma statistics_loop_total:
  "text_files repo \<Longrightarrow> \<exists>totals. statistics_loop repo total_tokens function_count = Inr totals"
proof (induction repo arbitrary: total_tokens function_count)
  case Nil
  then show ?case by simp
next
  case (Cons entry repo)
  obtain file_name code where entry: "entry = (file_name, code)"
    by (cases entry)
  from Cons.prems entry obtain s where code: "code = PStr s"
    by (cases code) (simp_all add: text_files_def)
  from Cons.prems have "text_files repo"
    by (simp add: text_files_def)
  from Cons.IH [OF this] entry code show ?case
    by simp
qed

lemma summary_statistics_total:
  "text_files (repository self) \<Longrightarrow> \<exists>stats. compute_summary_statistics self = Inr stats"
  using statistics_loop_total [of "repository self" 0 0]
  by (auto simp: compute_summary_statistics_def err_bind_def)

lemma sampling_loop_replicate:
  "sampling_loop n has_gold prompt_ref prompt ref_based ref_free =
     ((if has_gold then ref_based @ replicate n (simulate_llm_evaluation prompt_ref)
       else ref_based),
      ref_free @ replicate n (simulate_llm_evaluation prompt))"
proof (induction n arbitrary: ref_based ref_free)
  case 0
  then show ?case by simp
next
  case (Suc n)
  then show ?case by (simp add: replicate_app_Cons_same)
qed

lemma simulate_prompt_free: "simulate_llm_evaluation prompt_free = 9 / 2"
  by code_simp

lemma simulate_prompt_ref_gold: "simulate_llm_evaluation prompt_ref_gold = 4"
  by code_simp

lemma round2_scores: "round2 (9 / 2) = 9 / 2" "round2 4 = 4"
  by (simp_all add: round2_def)

lemma average_score_replicate:
  assumes "0 < n"
  shows "average_score (replicate n x) = round2 x"
proof -
  have "sum_list (replicate n x) = of_nat n * x"
    by (induction n) (simp_all add: algebra_simps)
  with assms show ?thesis
    by (simp add: average_score_def)
qed

lemma sampled_scores_without_gold:
  "0 < n \<Longrightarrow> sampled_scores False n = (PNone, PFloat (9 / 2))"
  by (simp add: sampled_scores_def sampling_loop_replicate simulate_prompt_free
      average_score_replicate round2_scores)

lemma sampled_scores_with_gold:
  "0 < n \<Longrightarrow> sampled_scores True n = (PFloat 4, PFloat (9 / 2))"
  by (simp add: sampled_scores_def sampling_loop_replicate simulate_prompt_free
      simulate_prompt_ref_gold average_score_replicate round2_scores)

lemma sampled_scores_no_sample: "sampled_scores has_gold 0 = (PNone, PNone)"
  by (simp add: sampled_scores_def)

lemma score_fields_evaluate:
  assumes "text_files (repository self)"
  shows "score_fields (evaluate self) =
           (case py_range (n_way_sampling self) of
              Inl e \<Rightarrow> Inl e
            | Inr n \<Rightarrow>
                Inr (Some (fst (sampled_scores (has_key (repository self) ''gold_standard'') n)),
                     Some (snd (sampled_scores (has_key (repository self) ''gold_standard'') n))))"
proof -
  from summary_statistics_total [OF assms] obtain stats
    where "compute_summary_statistics self = Inr stats" by blast
  then show ?thesis
    by (simp add: evaluate_def score_fields_def err_bind_def split: sum.splits prod.splits)
qed

text \<open>
  Claim C4. For a repository that is not empty, holds source text and has no key
  \<^verbatim>\<open>gold_standard\<close>, and a configuration whose \<^verbatim>\<open>evaluation.n_way_sampling\<close> is an integer
  \<open>n\<close> of at least one, constructing the evaluator and calling \<^verbatim>\<open>evaluate\<close> returns
  metrics whose \<^verbatim>\<open>reference_based_score\<close> is \<^verbatim>\<open>None\<close> and whose \<^verbatim>\<open>reference_free_score\<close> is
  4.5.
\<close>

theorem reference_free_score_without_gold:
  assumes "repository0 \<noteq> []"
    and "text_files repository0"
    and "\<not> has_key repository0 ''gold_standard''"
    and "map_of config0 ''evaluation'' = Some (PDict evaluation_config)"
    and "map_of evaluation_config ''n_way_sampling'' = Some (PInt n)"
    and "1 \<le> n"
  shows "\<exists>metrics. run_evaluation config_yaml repository0 (PDict config0) = Inr metrics \<and>
           map_of metrics ''reference_based_score'' = Some PNone \<and>
           map_of metrics ''reference_free_score'' = Some (PFloat (9 / 2))"
proof -
  define self where "self =
    \<lparr>repository = repository0, config = PDict config0, n_way_sampling = PInt n,
     evaluation_model = dict_get evaluation_config ''evaluation_model'' (PStr ''o3-mini-high'')\<rparr>"
  from assms(1,4,5) have init:
    "Evaluator_init config_yaml repository0 (PDict config0) = Inr self"
    by (simp add: Evaluator_init_def err_bind_def dict_get_def self_def)
  from assms(2) have "text_files (repository self)"
    by (simp add: self_def)
  from summary_statistics_total [OF this] obtain stats
    where stats: "compute_summary_statistics self = Inr stats" by blast
  from assms(6) have n: "0 < nat n" by simp
  have "evaluate self =
          Inr [(''reference_based_score'', PNone),
               (''reference_free_score'', PFloat (9 / 2)),
               (''human_score'', PFloat (21 / 5)),
               (''summary_statistics'', PDict stats),
               (''evaluation_model'', evaluation_model self),
               (''n_way_sampling'', n_way_sampling self)]"
    using stats assms(3) sampled_scores_without_gold [OF n]
    by (simp add: evaluate_def err_bind_def self_def)
  with init show ?thesis
    by (simp add: run_evaluation_def err_bind_def)
qed

theorem reference_free_score_without_gold_witness:
  "\<exists>metrics.
     run_evaluation None
       [(''main.py'', PStr ''def main(): pass''), (''planner.py'', PStr ''def plan(): pass'')]
       (PDict [(''evaluation'', PDict [(''n_way_sampling'', PInt 3),
                                       (''evaluation_model'', PStr ''gpt-x'')])])
       = Inr metrics \<and>
     map_of metrics ''reference_based_score'' = Some PNone \<and>
     map_of metrics ''reference_free_score'' = Some (PFloat (9 / 2))"
  using reference_free_score_without_gold
      [of "[(''main.py'', PStr ''def main(): pass''), (''planner.py'', PStr ''def plan(): pass'')]"
          "[(''evaluation'', PDict [(''n_way_sampling'', PInt 3),
                                    (''evaluation_model'', PStr ''gpt-x'')])]"
          "[(''n_way_sampling'', PInt 3), (''evaluation_model'', PStr ''gpt-x'')]" 3 None]
  by (simp add: text_files_def has_key_def)

text \<open>
  Claim C9. Two runs of the evaluator with the same configuration (and the same
  \<^verbatim>\<open>config.yaml\<close>), on two repositories of source text that are not empty and agree on
  the presence of the key \<^verbatim>\<open>gold_standard\<close>, end with the same two score fields, or with
  the same exception: the names and the contents of the files do not reach the scores.
\<close>

theorem scores_independent_of_contents:
  assumes "r1 \<noteq> []" and "r2 \<noteq> []"
    and "text_files r1" and "text_files r2"
    and "has_key r1 ''gold_standard'' = has_key r2 ''gold_standard''"
  shows "score_fields (run_evaluation config_yaml r1 config0) =
         score_fields (run_evaluation config_yaml r2 config0)"
proof (cases "Evaluator_init config_yaml r1 config0")
  case (Inl e)
  with assms(1,2) have "Evaluator_init config_yaml r2 config0 = Inl e"
    by (auto simp: Evaluator_init_def err_bind_def Let_def split: sum.splits if_splits)
  with Inl show ?thesis
    by (simp add: run_evaluation_def err_bind_def)
next
  case (Inr self1)
  with assms(1,2) have init2:
    "Evaluator_init config_yaml r2 config0 = Inr (self1\<lparr>repository := r2\<rparr>)"
    and rep1: "repository self1 = r1"
    by (auto simp: Evaluator_init_def err_bind_def Let_def split: sum.splits if_splits)
  from assms(3) rep1 have t1: "text_files (repository self1)"
    by simp
  from assms(4) have t2: "text_files (repository (self1\<lparr>repository := r2\<rparr>))"
    by simp
  from assms(5) rep1 have gold:
    "has_key (repository (self1\<lparr>repository := r2\<rparr>)) ''gold_standard'' =
     has_key (repository self1) ''gold_standard''"
    by simp
  have "score_fields (evaluate self1) = score_fields (evaluate (self1\<lparr>repository := r2\<rparr>))"
    unfolding score_fields_evaluate [OF t1] score_fields_evaluate [OF t2] gold
    by simp
  with Inr init2 show ?thesis
    by (simp add: run_evaluation_def err_bind_def)
qed

theorem scores_independent_of_contents_witness:
  "score_fields (run_evaluation None
      [(''main.py'', PStr ''def main(): pass'')]
      (PDict [(''evaluation'', PDict [(''n_way_sampling'', PInt 2)])])) =
   score_fields (run_evaluation None
      [(''a.py'', PStr ''x = 1''), (''b.py'', PStr '''')]
      (PDict [(''evaluation'', PDict [(''n_way_sampling'', PInt 2)])]))"
  using scores_independent_of_contents
      [of "[(''main.py'', PStr ''def main(): pass'')]"
          "[(''a.py'', PStr ''x = 1''), (''b.py'', PStr '''')]"
          None "PDict [(''evaluation'', PDict [(''n_way_sampling'', PInt 2)])]"]
  by (simp add: text_files_def has_key_def)

section \<open>Properties of the paper parser\<close>

lemma clean_text_cases:
  "clean_text v = (if is_str v then Inr (strip (case v of PStr s \<Rightarrow> s | _ \<Rightarrow> [])) else Inl AttributeError)"
  by (cases v) simp_all

lemma collect_segments_ok:
  "text_entries_ok items \<Longrightarrow>
   collect_segments items segments = Inr (segments @ concat (map entry_segment items))"
proof (induction items arbitrary: segments)
  case Nil
  then show ?case by simp
next
  case (Cons item items)
  from Cons.prems have rest: "text_entries_ok items"
    by (simp add: text_entries_ok_def)
  show ?case
  proof (cases item)
    case (PDict d)
    with Cons.prems obtain t where t: "dict_get d ''text'' (PStr '''') = PStr t"
      by (cases "dict_get d ''text'' (PStr '''')") (simp_all add: text_entries_ok_def)
    with PDict Cons.IH [OF rest] show ?thesis by simp
  qed (simp_all add: Cons.IH [OF rest])
qed

lemma collect_segments_bad:
  "\<not> text_entries_ok items \<Longrightarrow> collect_segments items segments = Inl AttributeError"
proof (induction items arbitrary: segments)
  case Nil
  then show ?case by (simp add: text_entries_ok_def)
next
  case (Cons item items)
  show ?case
  proof (cases item)
    case (PDict d)
    show ?thesis
    proof (cases "is_str (dict_get d ''text'' (PStr ''''))")
      case True
      with Cons.prems PDict have "\<not> text_entries_ok items"
        by (simp add: text_entries_ok_def)
      from Cons.IH [OF this] True PDict show ?thesis
        by (simp add: clean_text_cases)
    next
      case False
      with PDict show ?thesis by (simp add: clean_text_cases)
    qed
  next
    case PNone
    with Cons.prems have "\<not> text_entries_ok items" by (simp add: text_entries_ok_def)
    from Cons.IH [OF this] PNone show ?thesis by simp
  next
    case (PBool b)
    with Cons.prems have "\<not> text_entries_ok items" by (simp add: text_entries_ok_def)
    from Cons.IH [OF this] PBool show ?thesis by simp
  next
    case (PInt i)
    with Cons.prems have "\<not> text_entries_ok items" by (simp add: text_entries_ok_def)
    from Cons.IH [OF this] PInt show ?thesis by simp
  next
    case (PFloat r)
    with Cons.prems have "\<not> text_entries_ok items" by (simp add: text_entries_ok_def)
    from Cons.IH [OF this] PFloat show ?thesis by simp
  next
    case (PStr s)
    with Cons.prems have "\<not> text_entries_ok items" by (simp add: text_entries_ok_def)
    from Cons.IH [OF this] PStr show ?thesis by simp
  next
    case (PList xs)
    with Cons.prems have "\<not> text_entries_ok items" by (simp add: text_entries_ok_def)
    from Cons.IH [OF this] PList show ?thesis by simp
  qed
qed

lemma pdf_segments_ok:
  "text_entries_ok items \<Longrightarrow> pdf_segments items = Inr (concat (map record_segment items))"
proof (induction items)
  case Nil
  then show ?case by simp
next
  case (Cons item items)
  from Cons.prems have rest: "text_entries_ok items"
    by (simp add: text_entries_ok_def)
  show ?case
  proof (cases item)
    case (PDict d)
    with Cons.prems obtain t where t: "dict_get d ''text'' (PStr '''') = PStr t"
      by (cases "dict_get d ''text'' (PStr '''')") (simp_all add: text_entries_ok_def)
    with PDict Cons.IH [OF rest] show ?thesis by simp
  qed (simp_all add: Cons.IH [OF rest])
qed

lemma pdf_segments_bad:
  "\<not> text_entries_ok items \<Longrightarrow> pdf_segments items = Inl AttributeError"
proof (induction items)
  case Nil
  then show ?case by (simp add: text_entries_ok_def)
next
  case (Cons item items)
  show ?case
  proof (cases item)
    case (PDict d)
    show ?thesis
    proof (cases "is_str (dict_get d ''text'' (PStr ''''))")
      case True
      with Cons.prems PDict have "\<not> text_entries_ok items"
        by (simp add: text_entries_ok_def)
      from Cons.IH [OF this] True PDict show ?thesis
        by (simp add: clean_text_cases)
    next
      case False
      with PDict show ?thesis by (simp add: clean_text_cases)
    qed
  next
    case PNone
    with Cons.prems have "\<not> text_entries_ok items" by (simp add: text_entries_ok_def)
    from Cons.IH [OF this] PNone show ?thesis by simp
  next
    case (PBool b)
    with Cons.prems have "\<not> text_entries_ok items" by (simp add: text_entries_ok_def)
    from Cons.IH [OF this] PBool show ?thesis by simp
  next
    case (PInt i)
    with Cons.prems have "\<not> text_entries_ok items" by (simp add: text_entries_ok_def)
    from Cons.IH [OF this] PInt show ?thesis by simp
  next
    case (PFloat r)
    with Cons.prems have "\<not> text_entries_ok items" by (simp add: text_entries_ok_def)
    from Cons.IH [OF this] PFloat show ?thesis by simp
  next
    case (PStr s)
    with Cons.prems have "\<not> text_entries_ok items" by (simp add: text_entries_ok_def)
    from Cons.IH [OF this] PStr show ?thesis by simp
  next
    case (PList xs)
    with Cons.prems have "\<not> text_entries_ok items" by (simp add: text_entries_ok_def)
    from Cons.IH [OF this] PList show ?thesis by simp
  qed
qed

lemma pdf_parse_abstract_ok:
  "pdf_parse_ok raw \<Longrightarrow> pdf_parse_abstract raw = Inr (pdf_abstract_rule raw)"
  by (auto simp: pdf_parse_ok_def pdf_parse_abstract_def pdf_abstract_rule_def list_field_ok_def
      pdf_abstract_text_def err_bind_def has_key_def pdf_segments_ok
      split: option.splits pyval.splits)

lemma pdf_parse_abstract_bad:
  "\<not> pdf_parse_ok raw \<Longrightarrow>
   pdf_parse_abstract raw = Inl AttributeError \<or> pdf_parse_abstract raw = Inl TypeError"
  by (auto simp: pdf_parse_ok_def pdf_parse_abstract_def list_field_ok_def
      pdf_abstract_text_def err_bind_def has_key_def pdf_segments_bad
      split: option.splits pyval.splits)

lemma extract_abstract_ok:
  "abstract_source_ok raw \<Longrightarrow> extract_abstract raw = Inr (abstract_rule raw)"
  by (auto simp: abstract_source_ok_def extract_abstract_def abstract_rule_def list_field_ok_def
      direct_abstract_def err_bind_def collect_segments_ok pdf_parse_abstract_ok
      split: option.splits pyval.splits if_splits)

lemma extract_abstract_bad:
  "\<not> abstract_source_ok raw \<Longrightarrow>
   extract_abstract raw = Inl AttributeError \<or> extract_abstract raw = Inl TypeError"
  using pdf_parse_abstract_bad [of raw]
  by (auto simp: abstract_source_ok_def extract_abstract_def list_field_ok_def
      direct_abstract_def err_bind_def collect_segments_bad
      split: option.splits pyval.splits if_splits)

lemma extract_body_text_cases:
  "list_field_ok raw ''body_text'' \<Longrightarrow> \<exists>body. extract_body_text raw = Inr body"
  "\<not> list_field_ok raw ''body_text'' \<Longrightarrow> extract_body_text raw = Inl AttributeError"
  by (auto simp: list_field_ok_def extract_body_text_def err_bind_def collect_segments_ok
      collect_segments_bad split: option.splits pyval.splits)

lemma extract_figures_cases:
  "list_field_ok raw ''back_matter'' \<Longrightarrow> \<exists>figures. extract_figures raw = Inr figures"
  "\<not> list_field_ok raw ''back_matter'' \<Longrightarrow> extract_figures raw = Inl AttributeError"
  by (auto simp: list_field_ok_def extract_figures_def collect_segments_ok
      collect_segments_bad split: option.splits pyval.splits)

lemma parse_well_shaped:
  assumes "well_shaped raw"
  shows "\<exists>body figures.
           parse repr raw =
             Inr [(''paper_id'', PStr (strip (py_str repr (dict_get raw ''paper_id'' (PStr ''''))))),
                  (''title'', PStr (strip (py_str repr (dict_get raw ''title'' (PStr ''''))))),
                  (''abstract'', PStr (abstract_rule raw)),
                  (''body_text'', PStr body),
                  (''figures'', PList (map PStr figures)),
                  (''ref_entries'', PDict (extract_ref_entries raw))]"
proof -
  from assms have a: "extract_abstract raw = Inr (abstract_rule raw)"
    by (simp add: well_shaped_def extract_abstract_ok)
  from assms extract_body_text_cases(1) [of raw] obtain body
    where b: "extract_body_text raw = Inr body"
    by (auto simp: well_shaped_def)
  from assms extract_figures_cases(1) [of raw] obtain figures
    where f: "extract_figures raw = Inr figures"
    by (auto simp: well_shaped_def)
  from a b f show ?thesis
    by (auto simp: parse_def err_bind_def Let_def)
qed

lemma parse_ill_shaped:
  assumes "\<not> well_shaped raw"
  shows "parse repr raw = Inl AttributeError \<or> parse repr raw = Inl TypeError"
proof (cases "abstract_source_ok raw")
  case False
  from extract_abstract_bad [OF this] show ?thesis
    by (auto simp: parse_def err_bind_def Let_def)
next
  case True
  then have a: "extract_abstract raw = Inr (abstract_rule raw)"
    by (rule extract_abstract_ok)
  show ?thesis
  proof (cases "list_field_ok raw ''body_text''")
    case False
    from extract_body_text_cases(2) [OF this] a show ?thesis
      by (simp add: parse_def err_bind_def Let_def)
  next
    case body: True
    from extract_body_text_cases(1) [OF this] obtain b where b: "extract_body_text raw = Inr b"
      by blast
    from assms True body have "\<not> list_field_ok raw ''back_matter''"
      by (simp add: well_shaped_def)
    from extract_figures_cases(2) [OF this] a b show ?thesis
      by (simp add: parse_def err_bind_def Let_def)
  qed
qed

text \<open>
  Claim C1, at the record with both required fields whose abstract is the list holding
  \<^verbatim>\<open>{"text": null}\<close>. The constructor accepts it; in \<^verbatim>\<open>parse\<close> the lookup
  \<^verbatim>\<open>item.get("text", "")\<close> returns \<^verbatim>\<open>None\<close> and \<^verbatim>\<open>_clean_text\<close> calls \<^verbatim>\<open>strip\<close> on it, which raises
  \<^verbatim>\<open>AttributeError\<close>, where the claim says that parsing succeeds and returns the trimmed
  id and title.
\<close>

theorem parse_raises_with_both_fields:
  "has_key [(''paper_id'', PStr ''1234''), (''title'', PStr ''Sample Paper Title''),
            (''abstract'', PList [PDict [(''text'', PNone)]])] ''paper_id'' \<and>
   has_key [(''paper_id'', PStr ''1234''), (''title'', PStr ''Sample Paper Title''),
            (''abstract'', PList [PDict [(''text'', PNone)]])] ''title'' \<and>
   parse_paper (\<lambda>v. '''')
     [(''paper_id'', PStr ''1234''), (''title'', PStr ''Sample Paper Title''),
      (''abstract'', PList [PDict [(''text'', PNone)]])] = Inl AttributeError"
  by (simp add: has_key_def parse_paper_def PaperParser_init_def parse_def extract_abstract_def
      direct_abstract_def err_bind_def dict_get_def)

text \<open>
  What the parser does on every record. Without \<^verbatim>\<open>paper_id\<close> or without \<^verbatim>\<open>title\<close> the
  constructor raises \<^verbatim>\<open>ValueError\<close>. With both, \<^verbatim>\<open>parse\<close> returns exactly on the well
  shaped records, and the record returned has under \<^verbatim>\<open>paper_id\<close> and \<^verbatim>\<open>title\<close> the input
  values, converted with \<^verbatim>\<open>str\<close> and stripped of surrounding white space.
\<close>

lemma parse_paper_required_fields:
  "(map_of raw ''paper_id'' = None \<or> map_of raw ''title'' = None \<longrightarrow>
      parse_paper repr raw = Inl ValueError) \<and>
   (map_of raw ''paper_id'' = Some paper_id \<and> map_of raw ''title'' = Some title \<longrightarrow>
      (well_shaped raw \<longrightarrow>
         (\<exists>paper. parse_paper repr raw = Inr paper \<and>
            map_of paper ''paper_id'' = Some (PStr (strip (py_str repr paper_id))) \<and>
            map_of paper ''title'' = Some (PStr (strip (py_str repr title))))) \<and>
      (\<not> well_shaped raw \<longrightarrow>
         parse_paper repr raw = Inl AttributeError \<or> parse_paper repr raw = Inl TypeError))"
proof (intro conjI impI)
  assume "map_of raw ''paper_id'' = None \<or> map_of raw ''title'' = None"
  then show "parse_paper repr raw = Inl ValueError"
    by (auto simp: parse_paper_def PaperParser_init_def has_key_def err_bind_def)
next
  assume keys: "map_of raw ''paper_id'' = Some paper_id \<and> map_of raw ''title'' = Some title"
    and shape: "well_shaped raw"
  from keys have init: "parse_paper repr raw = parse repr raw"
    by (simp add: parse_paper_def PaperParser_init_def has_key_def err_bind_def)
  from parse_well_shaped [OF shape, of repr] keys init
  show "\<exists>paper. parse_paper repr raw = Inr paper \<and>
          map_of paper ''paper_id'' = Some (PStr (strip (py_str repr paper_id))) \<and>
          map_of paper ''title'' = Some (PStr (strip (py_str repr title)))"
    by (auto simp: dict_get_def)
next
  assume keys: "map_of raw ''paper_id'' = Some paper_id \<and> map_of raw ''title'' = Some title"
    and shape: "\<not> well_shaped raw"
  from keys have init: "parse_paper repr raw = parse repr raw"
    by (simp add: parse_paper_def PaperParser_init_def has_key_def err_bind_def)
  from parse_ill_shaped [OF shape, of repr] init
  show "parse_paper repr raw = Inl AttributeError \<or> parse_paper repr raw = Inl TypeError"
    by simp
qed

lemma parse_paper_required_fields_example:
  "parse_paper (\<lambda>v. '''') [(''title'', PStr ''Sample Paper Title'')] = Inl ValueError \<and>
   (\<exists>paper.
      parse_paper (\<lambda>v. '''')
        [(''paper_id'', PStr '' 1234 ''), (''title'', PStr ''  Sample Paper Title''),
         (''abstract'', PList [PDict [(''text'', PStr ''An abstract. '')]])] = Inr paper \<and>
      map_of paper ''paper_id'' = Some (PStr ''1234'') \<and>
      map_of paper ''title'' = Some (PStr ''Sample Paper Title'')) \<and>
   (parse_paper (\<lambda>v. '''')
      [(''paper_id'', PStr ''1234''), (''title'', PStr ''Sample Paper Title''),
       (''body_text'', PList [PDict [(''text'', PInt 5)]])] = Inl AttributeError \<or>
    parse_paper (\<lambda>v. '''')
      [(''paper_id'', PStr ''1234''), (''title'', PStr ''Sample Paper Title''),
       (''body_text'', PList [PDict [(''text'', PInt 5)]])] = Inl TypeError)"
proof -
  from parse_paper_required_fields
      [of "[(''title'', PStr ''Sample Paper Title'')]" "\<lambda>v. ''''" PNone PNone]
  have first: "parse_paper (\<lambda>v. '''') [(''title'', PStr ''Sample Paper Title'')] = Inl ValueError"
    by simp
  from parse_paper_required_fields
      [of "[(''paper_id'', PStr '' 1234 ''), (''title'', PStr ''  Sample Paper Title''),
            (''abstract'', PList [PDict [(''text'', PStr ''An abstract. '')]])]"
          "\<lambda>v. ''''" "PStr '' 1234 ''" "PStr ''  Sample Paper Title''"]
  have second: "\<exists>paper.
      parse_paper (\<lambda>v. '''')
        [(''paper_id'', PStr '' 1234 ''), (''title'', PStr ''  Sample Paper Title''),
         (''abstract'', PList [PDict [(''text'', PStr ''An abstract. '')]])] = Inr paper \<and>
      map_of paper ''paper_id'' = Some (PStr ''1234'') \<and>
      map_of paper ''title'' = Some (PStr ''Sample Paper Title'')"
    by (simp add: well_shaped_def abstract_source_ok_def list_field_ok_def text_entries_ok_def
        pdf_parse_ok_def dict_get_def strip_def is_space_def)
  from parse_paper_required_fields
      [of "[(''paper_id'', PStr ''1234''), (''title'', PStr ''Sample Paper Title''),
            (''body_text'', PList [PDict [(''text'', PInt 5)]])]"
          "\<lambda>v. ''''" "PStr ''1234''" "PStr ''Sample Paper Title''"]
  have third: "parse_paper (\<lambda>v. '''')
     [(''paper_id'', PStr ''1234''), (''title'', PStr ''Sample Paper Title''),
      (''body_text'', PList [PDict [(''text'', PInt 5)]])] = Inl AttributeError \<or>
    parse_paper (\<lambda>v. '''')
     [(''paper_id'', PStr ''1234''), (''title'', PStr ''Sample Paper Title''),
      (''body_text'', PList [PDict [(''text'', PInt 5)]])] = Inl TypeError"
    by (simp add: well_shaped_def abstract_source_ok_def list_field_ok_def text_entries_ok_def
        pdf_parse_ok_def dict_get_def)
  from first second third show ?thesis by blast
qed

lemma strip_examples:
  "strip '''' = ''''"
  "strip ''  '' = ''''"
  "strip ''Deep learning'' = ''Deep learning''"
  "strip ''From the PDF'' = ''From the PDF''"
  "strip '' Deep learning. '' = ''Deep learning.''"
  "strip ''It works.'' = ''It works.''"
  by (simp_all add: strip_def is_space_def)

text \<open>
  Claim C8, against the claim as stated, at two records. An empty list under \<^verbatim>\<open>abstract\<close>
  fails the test \<^verbatim>\<open>and self.paper_json["abstract"]\<close> and sends the parser to \<^verbatim>\<open>pdf_parse\<close>,
  where the rule of the specification gives the empty string; a record (neither a list
  nor a string) under \<^verbatim>\<open>abstract\<close> passes the test, so that the parser gives the empty
  string and never reaches the \<^verbatim>\<open>elif\<close> on \<^verbatim>\<open>pdf_parse\<close>, where the rule of the
  specification turns to \<^verbatim>\<open>pdf_parse.abstract\<close>.
\<close>

theorem abstract_extraction_differs_from_spec:
  "extract_abstract [(''abstract'', PList []),
                     (''pdf_parse'', PDict [(''abstract'', PStr ''From the PDF'')])]
     = Inr ''From the PDF'' \<and>
   spec_abstract [(''abstract'', PList []),
                  (''pdf_parse'', PDict [(''abstract'', PStr ''From the PDF'')])]
     = '''' \<and>
   extract_abstract [(''abstract'', PDict [(''text'', PStr ''Deep learning'')]),
                     (''pdf_parse'', PDict [(''abstract'', PStr ''From the PDF'')])]
     = Inr '''' \<and>
   spec_abstract [(''abstract'', PDict [(''text'', PStr ''Deep learning'')]),
                  (''pdf_parse'', PDict [(''abstract'', PStr ''From the PDF'')])]
     = ''From the PDF''"
  by (simp add: extract_abstract_def direct_abstract_def pdf_parse_abstract_def
      pdf_abstract_text_def spec_abstract_def err_bind_def has_key_def strip_examples)

text \<open>
  Plain strings are not treated as records are, and the amended claim says nothing of
  them: a blank plain string in the list under \<^verbatim>\<open>abstract\<close> is appended without the test
  \<^verbatim>\<open>if segment:\<close> that the branch for records makes, and shows as a leading space; a plain
  string in the list under \<^verbatim>\<open>pdf_parse.abstract\<close> is dropped, though the loop over
  \<^verbatim>\<open>abstract\<close> keeps it.
\<close>

lemma abstract_extraction_plain_strings:
  "extract_abstract [(''abstract'', PList [PStr ''  '', PStr ''Deep learning''])]
     = Inr '' Deep learning''"
  "spec_abstract [(''abstract'', PList [PStr ''  '', PStr ''Deep learning''])]
     = ''Deep learning''"
  "extract_abstract [(''pdf_parse'', PDict [(''abstract'', PList [PStr ''Deep learning''])])]
     = Inr ''''"
  "spec_abstract [(''pdf_parse'', PDict [(''abstract'', PList [PStr ''Deep learning''])])]
     = ''Deep learning''"
  by (simp_all add: extract_abstract_def direct_abstract_def pdf_parse_abstract_def
      pdf_abstract_text_def spec_abstract_def err_bind_def has_key_def strip_examples)

lemma record_segment_spec:
  assumes "is_str (dict_get d ''text'' (PStr ''''))"
  shows "record_segment (PDict d) =
         filter (\<lambda>t. t \<noteq> []) (map strip (spec_text_value (PDict d)))"
proof -
  from assms obtain t where t: "dict_get d ''text'' (PStr '''') = PStr t"
    by (cases "dict_get d ''text'' (PStr '''')") simp_all
  show ?thesis
  proof (cases "map_of d ''text''")
    case None
    with t have "t = []" by (simp add: dict_get_def)
    with None t show ?thesis by (simp add: strip_def)
  next
    case (Some v)
    with t have "v = PStr t" by (simp add: dict_get_def)
    with Some t show ?thesis by simp
  qed
qed

lemma direct_entries_regular_ok:
  "direct_entries_regular items \<Longrightarrow> text_entries_ok items"
  by (induction items)
    (auto simp: direct_entries_regular_def text_entries_ok_def split: pyval.splits)

lemma pdf_entries_regular_ok:
  "pdf_entries_regular items \<Longrightarrow> text_entries_ok items"
  by (induction items)
    (auto simp: pdf_entries_regular_def text_entries_ok_def split: pyval.splits)

lemma direct_entries_regular_segments:
  "direct_entries_regular items \<Longrightarrow>
   concat (map entry_segment items) =
   filter (\<lambda>t. t \<noteq> []) (map strip (concat (map spec_text_value items)))"
proof (induction items)
  case Nil
  then show ?case by simp
next
  case (Cons item items)
  from Cons.prems have rest: "direct_entries_regular items"
    by (simp add: direct_entries_regular_def)
  have "entry_segment item = filter (\<lambda>t. t \<noteq> []) (map strip (spec_text_value item))"
  proof (cases item)
    case (PDict d)
    with Cons.prems have "is_str (dict_get d ''text'' (PStr ''''))"
      by (simp add: direct_entries_regular_def)
    from record_segment_spec [OF this] PDict show ?thesis by simp
  next
    case (PStr s)
    with Cons.prems have "strip s \<noteq> []"
      by (simp add: direct_entries_regular_def)
    with PStr show ?thesis by simp
  qed simp_all
  with Cons.IH [OF rest] show ?case by simp
qed

lemma pdf_entries_regular_segments:
  "pdf_entries_regular items \<Longrightarrow>
   concat (map record_segment items) =
   filter (\<lambda>t. t \<noteq> []) (map strip (concat (map spec_text_value items)))"
proof (induction items)
  case Nil
  then show ?case by simp
next
  case (Cons item items)
  from Cons.prems have rest: "pdf_entries_regular items"
    by (simp add: pdf_entries_regular_def)
  have "record_segment item = filter (\<lambda>t. t \<noteq> []) (map strip (spec_text_value item))"
  proof (cases item)
    case (PDict d)
    with Cons.prems have "is_str (dict_get d ''text'' (PStr ''''))"
      by (simp add: pdf_entries_regular_def)
    from record_segment_spec [OF this] PDict show ?thesis by simp
  next
    case (PStr s)
    with Cons.prems have "strip s = []"
      by (simp add: pdf_entries_regular_def)
    with PStr show ?thesis by simp
  qed simp_all
  with Cons.IH [OF rest] show ?case by simp
qed

lemma regular_pdf_source_rule:
  assumes "regular_pdf_source raw"
  shows "pdf_parse_ok raw" and "pdf_abstract_rule raw = amended_pdf_abstract raw"
  using assms
  by (auto simp: regular_pdf_source_def pdf_parse_ok_def pdf_abstract_rule_def
      amended_pdf_abstract_def list_field_ok_def pdf_entries_regular_ok
      pdf_entries_regular_segments split: option.splits pyval.splits)

lemma regular_abstract_source_rule:
  assumes "regular_abstract_source raw"
  shows "abstract_source_ok raw" and "abstract_rule raw = amended_abstract raw"
  using assms regular_pdf_source_rule [of raw]
  by (auto simp: regular_abstract_source_def abstract_source_ok_def abstract_rule_def
      amended_abstract_def list_field_ok_def direct_entries_regular_ok
      direct_entries_regular_segments split: option.splits pyval.splits if_splits)

text \<open>
  Claim C8, amended. If \<^verbatim>\<open>abstract\<close> is present and true (not empty): a sequence gives the
  non-empty trimmed text values of its \<^verbatim>\<open>{text}\<close> records and plain strings joined by single
  spaces, a string gives the string trimmed, and any other value gives the empty string
  without \<^verbatim>\<open>pdf_parse\<close> being consulted. If \<^verbatim>\<open>abstract\<close> is missing or false (empty), the
  same two sub-rules are applied to \<^verbatim>\<open>pdf_parse.abstract\<close>, and the result is the empty
  string when there is none. This is stated of the regular records: every record in the
  list consulted has a string or nothing under \<^verbatim>\<open>text\<close>, no plain string in the list under
  \<^verbatim>\<open>abstract\<close> is blank, every plain string in the list under \<^verbatim>\<open>pdf_parse.abstract\<close> is
  blank, and \<^verbatim>\<open>pdf_parse\<close>, when consulted, is missing or a dictionary. On them the
  extraction returns, and when the whole record is well shaped \<^verbatim>\<open>parse\<close> returns a record
  with this abstract.
\<close>

theorem abstract_extraction_rule:
  "(regular_abstract_source raw \<longrightarrow> extract_abstract raw = Inr (amended_abstract raw)) \<and>
   (has_key raw ''paper_id'' \<and> has_key raw ''title'' \<and> well_shaped raw
      \<and> regular_abstract_source raw \<longrightarrow>
      (\<exists>paper. parse_paper repr raw = Inr paper \<and>
         map_of paper ''abstract'' = Some (PStr (amended_abstract raw))))"
proof (intro conjI impI)
  assume r: "regular_abstract_source raw"
  from regular_abstract_source_rule [OF r] extract_abstract_ok [of raw]
  show "extract_abstract raw = Inr (amended_abstract raw)"
    by simp
next
  assume a: "has_key raw ''paper_id'' \<and> has_key raw ''title'' \<and> well_shaped raw
      \<and> regular_abstract_source raw"
  then have "parse_paper repr raw = parse repr raw"
    by (simp add: parse_paper_def PaperParser_init_def err_bind_def)
  moreover from a have "abstract_rule raw = amended_abstract raw"
    by (simp add: regular_abstract_source_rule)
  ultimately show "\<exists>paper. parse_paper repr raw = Inr paper \<and>
          map_of paper ''abstract'' = Some (PStr (amended_abstract raw))"
    using a parse_well_shaped [of raw repr] by auto
qed

theorem abstract_extraction_rule_witness:
  "extract_abstract
     [(''abstract'', PList []),
      (''pdf_parse'', PDict [(''abstract'', PList [PDict [(''text'', PStr ''From the PDF'')]])])]
     = Inr ''From the PDF'' \<and>
   (\<exists>paper.
      parse_paper (\<lambda>v. '''')
        [(''paper_id'', PStr ''1234''), (''title'', PStr ''Sample''),
         (''abstract'', PList [PDict [(''text'', PStr '' Deep learning. '')], PDict [],
                               PStr ''It works.''])]
        = Inr paper \<and>
      map_of paper ''abstract'' = Some (PStr ''Deep learning. It works.''))"
  using abstract_extraction_rule
      [of "[(''abstract'', PList []),
            (''pdf_parse'',
               PDict [(''abstract'', PList [PDict [(''text'', PStr ''From the PDF'')]])])]"
          "\<lambda>v. ''''"]
    abstract_extraction_rule
      [of "[(''paper_id'', PStr ''1234''), (''title'', PStr ''Sample''),
            (''abstract'', PList [PDict [(''text'', PStr '' Deep learning. '')], PDict [],
                                  PStr ''It works.''])]"
          "\<lambda>v. ''''"]
  by (simp add: well_shaped_def abstract_source_ok_def list_field_ok_def text_entries_ok_def
      pdf_parse_ok_def dict_get_def has_key_def regular_abstract_source_def
      regular_pdf_source_def direct_entries_regular_def pdf_entries_regular_def
      amended_abstract_def amended_pdf_abstract_def strip_examples)

section \<open>Properties of the code generator\<close>

text \<open>
  Claim C5. The literal that the branch for \<^verbatim>\<open>code_generator.py\<close> returns, opened on
  line 191, is closed by the three quotes on line 231 that were meant to open a literal
  inside it. What follows on that line, a backslash and a double quote outside any
  literal, is no Python token: the module is rejected when it is compiled, and no
  generator exists to produce output for any configuration.
\<close>

theorem template_literal_closed_on_line_231:
  "triple_quoted_end generate_template_source =
     Some ([CHR 0x5C, CHR 0x22, CHR 0x5C, CHR 0x22, CHR 0x5C, CHR 0x22] @
           ''Module: {{file_name}}'', [])"
  by (simp add: generate_template_source_def)

end
